theory Spec2Isabelle
  imports
    Main
    "HOL-Library.AList"
    "HOL-Library.Multiset"
    "HOL-Library.Sublist"
    "HOL-Library.Char_ord"
    "HOL-Library.List_Lexorder"
begin

section \<open>The password vault of pwmanager, embedded in HOL\<close>

text \<open>
  The package \<^verbatim>\<open>pwmanager\<close> (the vault of \<^verbatim>\<open>pwmanager.go\<close>, its key manager and
  the loader of \<^verbatim>\<open>vault_v2.go\<close>) and the wrappers it calls in \<^verbatim>\<open>internal/encrypt\<close>
  and \<^verbatim>\<open>internal/hash\<close> are translated function by function. A Go \<^verbatim>\<open>string\<close> and a Go \<^verbatim>\<open>[]byte\<close> are both sequences of
  bytes, so both are \<^typ>\<open>string\<close> here and the conversions \<^verbatim>\<open>[]byte(s)\<close> and
  \<^verbatim>\<open>string(b)\<close> disappear. A \<^verbatim>\<open>time.Time\<close> is an instant on the UTC time line, an
  \<^typ>\<open>int\<close>. A Go \<^verbatim>\<open>(T, error)\<close> result is \<open>error + T\<close>.
\<close>

type_synonym bytes = string
type_synonym time = int

subsection \<open>Errors\<close>

text \<open>
  One constructor for each \<^verbatim>\<open>errors.New\<close> of the source and for each failure a library
  reports; \<open>Wrap p e\<close> is \<^verbatim>\<open>fmt.Errorf("p: %w", e)\<close>.
\<close>

datatype error =
    NilVault                  \<comment> \<open>\<^verbatim>\<open>errors.New("nil vault")\<close>\<close>
  | WrongMasterPassword       \<comment> \<open>\<^verbatim>\<open>errors.New("wrong master password")\<close>\<close>
  | NoSuchId                  \<comment> \<open>\<^verbatim>\<open>errors.New("no such id")\<close>\<close>
  | KeySize                   \<comment> \<open>\<^verbatim>\<open>errors.New("key must be 16, 24, or 32 bytes")\<close>\<close>
  | NonceSize                 \<comment> \<open>\<^verbatim>\<open>errors.New("nonce must be 12 bytes for GCM")\<close>\<close>
  | KeyLenNotPositive         \<comment> \<open>\<^verbatim>\<open>errors.New("keyLen must be positive")\<close>\<close>
  | RandFailure               \<comment> \<open>the error of \<^verbatim>\<open>crypto/rand\<close>\<close>
  | Base64Corrupt             \<comment> \<open>\<^verbatim>\<open>base64.CorruptInputError\<close>\<close>
  | ScryptParams              \<comment> \<open>the error of \<^verbatim>\<open>scrypt.Key\<close>\<close>
  | HkdfEntropy               \<comment> \<open>the error of reading too much from \<^verbatim>\<open>hkdf\<close>\<close>
  | AesKeySize                \<comment> \<open>\<^verbatim>\<open>aes.KeySizeError\<close>\<close>
  | GcmBlockSize              \<comment> \<open>the error of \<^verbatim>\<open>cipher.NewGCM\<close>\<close>
  | GcmAuthFailed             \<comment> \<open>\<^verbatim>\<open>cipher: message authentication failed\<close>\<close>
  | JsonSyntax                \<comment> \<open>\<^verbatim>\<open>json.SyntaxError\<close>\<close>
  | JsonDecode                \<comment> \<open>a JSON value that does not fit the Go type it is decoded into\<close>
  | JsonMarshal               \<comment> \<open>\<^verbatim>\<open>json.MarshalerError\<close>: a time that has no JSON text\<close>
  | FileNotReadable           \<comment> \<open>the error of \<^verbatim>\<open>os.ReadFile\<close>\<close>
  | FileNotWritable           \<comment> \<open>the error of \<^verbatim>\<open>os.WriteFile\<close>\<close>
  | NilMapAssignment          \<comment> \<open>the run-time panic \<^verbatim>\<open>assignment to entry in nil map\<close>\<close>
  | MakeSliceLen              \<comment> \<open>the run-time panic \<^verbatim>\<open>makeslice: len out of range\<close>\<close>
  | UnsupportedVersion int    \<comment> \<open>\<^verbatim>\<open>fmt.Errorf("unsupported vault version: %d", v.Version)\<close>\<close>
  | Wrap string error

subsection \<open>JSON values\<close>

text \<open>
  \<^verbatim>\<open>encoding/json\<close> works in two layers. Which members a struct has as a JSON object
  follows from the struct declarations of the repository (exported fields, their tags,
  \<^verbatim>\<open>omitempty\<close>) and is written out below. How a JSON value is spelled as text is the
  library's business and is a parameter.
\<close>

datatype json =
    JNull
  | JBool bool
  | JNum int                  \<comment> \<open>a number written as an integer literal\<close>
  | JFrac string              \<comment> \<open>any other number, by its text\<close>
  | JStr string
  | JArr "json list"
  | JObj "(string \<times> json) list"

subsection \<open>The libraries the repository calls\<close>

text \<open>
  The Go standard library and \<^verbatim>\<open>golang.org/x/crypto\<close> are not part of the repository.
  Their functions are the fields of a record that every operation takes as its first
  argument; what a theorem needs of them is a hypothesis of that theorem.
\<close>

record lib =
  unicode_ToLower :: "string \<Rightarrow> string"
    \<comment> \<open>\<^verbatim>\<open>strings.Map(unicode.ToLower, s)\<close>, used for a string with a non-ASCII byte\<close>
  json_EqualFold :: "string \<Rightarrow> string \<Rightarrow> bool"
    \<comment> \<open>the case folding by which the JSON decoder matches a key to a field name\<close>
  b64_Std_Encode :: "bytes \<Rightarrow> string"
  b64_Std_Decode :: "string \<Rightarrow> bytes option"
  b64_RawURL_Encode :: "bytes \<Rightarrow> string"
  scrypt_Key :: "bytes \<Rightarrow> bytes \<Rightarrow> int \<Rightarrow> int \<Rightarrow> int \<Rightarrow> int \<Rightarrow> bytes option"
  hkdf_Read :: "bytes \<Rightarrow> bytes \<Rightarrow> bytes \<Rightarrow> int \<Rightarrow> bytes option"
    \<comment> \<open>\<^verbatim>\<open>io.ReadFull\<close> of \<^verbatim>\<open>hkdf.New(sha256.New, secret, salt, info)\<close>\<close>
  aes_NewCipher :: "bytes \<Rightarrow> bool"
    \<comment> \<open>whether \<^verbatim>\<open>aes.NewCipher(key)\<close> returns a block\<close>
  cipher_NewGCM :: "bytes \<Rightarrow> bool"
    \<comment> \<open>whether \<^verbatim>\<open>cipher.NewGCM\<close> accepts the block made from the key\<close>
  gcm_Seal :: "bytes \<Rightarrow> bytes \<Rightarrow> bytes \<Rightarrow> bytes \<Rightarrow> bytes"
    \<comment> \<open>key, nonce, plaintext, additional data\<close>
  gcm_Open :: "bytes \<Rightarrow> bytes \<Rightarrow> bytes \<Rightarrow> bytes \<Rightarrow> bytes option"
    \<comment> \<open>key, nonce, ciphertext, additional data\<close>
  json_Text :: "json \<Rightarrow> bytes"
    \<comment> \<open>the text \<^verbatim>\<open>json.Marshal\<close> writes for a value\<close>
  json_TextIndent :: "json \<Rightarrow> bytes"
    \<comment> \<open>the text \<^verbatim>\<open>json.MarshalIndent(v, "", "  ")\<close> writes for a value\<close>
  json_Parse :: "bytes \<Rightarrow> json option"
    \<comment> \<open>the value a text denotes; \<open>None\<close> on a syntax error\<close>
  time_MarshalJSON :: "time \<Rightarrow> string option"
    \<comment> \<open>RFC 3339 text of an instant; \<open>None\<close> for a year outside 0..9999\<close>
  time_UnmarshalJSON :: "string \<Rightarrow> time option"

subsection \<open>Package strings\<close>

definition asciiLower :: "char \<Rightarrow> char" where
  "asciiLower c =
     (let n = (of_char c :: nat) in if 65 \<le> n \<and> n \<le> 90 then char_of (n + 32) else c)"

text \<open>
  \<^verbatim>\<open>strings.ToLower\<close>: a string of ASCII bytes is mapped byte by byte, any other string
  goes through the Unicode tables.
\<close>

definition ToLower :: "lib \<Rightarrow> string \<Rightarrow> string" where
  "ToLower L s =
     (if list_all (\<lambda>c. (of_char c :: nat) < 128) s then map asciiLower s
      else unicode_ToLower L s)"

definition asciiSpace :: "char \<Rightarrow> bool" where
  "asciiSpace c = ((of_char c :: nat) \<in> {9, 10, 11, 12, 13, 32})"

text \<open>
  The UTF-8 encodings of the code points beyond ASCII that \<^verbatim>\<open>unicode.IsSpace\<close>
  accepts: U+0085, U+00A0, U+1680, U+2000 to U+200A, U+2028, U+2029, U+202F, U+205F and
  U+3000.
\<close>

definition unicodeSpaces :: "string list" where
  "unicodeSpaces =
     [[CHR 0xC2, CHR 0x85], [CHR 0xC2, CHR 0xA0], [CHR 0xE1, CHR 0x9A, CHR 0x80],
      [CHR 0xE2, CHR 0x80, CHR 0x80], [CHR 0xE2, CHR 0x80, CHR 0x81],
      [CHR 0xE2, CHR 0x80, CHR 0x82], [CHR 0xE2, CHR 0x80, CHR 0x83],
      [CHR 0xE2, CHR 0x80, CHR 0x84], [CHR 0xE2, CHR 0x80, CHR 0x85],
      [CHR 0xE2, CHR 0x80, CHR 0x86], [CHR 0xE2, CHR 0x80, CHR 0x87],
      [CHR 0xE2, CHR 0x80, CHR 0x88], [CHR 0xE2, CHR 0x80, CHR 0x89],
      [CHR 0xE2, CHR 0x80, CHR 0x8A], [CHR 0xE2, CHR 0x80, CHR 0xA8],
      [CHR 0xE2, CHR 0x80, CHR 0xA9], [CHR 0xE2, CHR 0x80, CHR 0xAF],
      [CHR 0xE2, CHR 0x81, CHR 0x9F], [CHR 0xE3, CHR 0x80, CHR 0x80]]"

text \<open>The length of the white-space character a string starts with; 0 when there is none.\<close>

definition leadingSpace :: "string \<Rightarrow> nat" where
  "leadingSpace s =
     (case s of
        [] \<Rightarrow> 0
      | c # _ \<Rightarrow>
          if asciiSpace c then 1
          else (case find (\<lambda>w. prefix w s) unicodeSpaces of None \<Rightarrow> 0 | Some w \<Rightarrow> length w))"

text \<open>The loop that drops white-space characters from the start of a string.\<close>

function TrimLeftSpace :: "string \<Rightarrow> string" where
  "TrimLeftSpace s =
     (if leadingSpace s = 0 then s else TrimLeftSpace (drop (leadingSpace s) s))"
  by pat_completeness auto
termination
proof (relation "measure length")
  show "wf (measure length)" by simp
next
  fix s :: string
  assume a: "leadingSpace s \<noteq> 0"
  then have "s \<noteq> []" by (auto simp add: leadingSpace_def)
  with a show "(drop (leadingSpace s) s, s) \<in> measure length" by simp
qed

declare TrimLeftSpace.simps [simp del]

text \<open>The same from the end of the string, on the reversed string.\<close>

definition trailingSpace :: "string \<Rightarrow> nat" where
  "trailingSpace r =
     (case r of
        [] \<Rightarrow> 0
      | c # _ \<Rightarrow>
          if asciiSpace c then 1
          else (case find (\<lambda>w. prefix (rev w) r) unicodeSpaces of
                  None \<Rightarrow> 0 | Some w \<Rightarrow> length w))"

function TrimRightSpaceRev :: "string \<Rightarrow> string" where
  "TrimRightSpaceRev r =
     (if trailingSpace r = 0 then r else TrimRightSpaceRev (drop (trailingSpace r) r))"
  by pat_completeness auto
termination
proof (relation "measure length")
  show "wf (measure length)" by simp
next
  fix r :: string
  assume a: "trailingSpace r \<noteq> 0"
  then have "r \<noteq> []" by (auto simp add: trailingSpace_def)
  with a show "(drop (trailingSpace r) r, r) \<in> measure length" by simp
qed

declare TrimRightSpaceRev.simps [simp del]

text \<open>\<^verbatim>\<open>strings.TrimSpace\<close>: white space is trimmed from the start, then from the end.\<close>

definition TrimSpace :: "string \<Rightarrow> string" where
  "TrimSpace s = rev (TrimRightSpaceRev (rev (TrimLeftSpace s)))"

text \<open>\<^verbatim>\<open>strings.Contains(s, substr)\<close>.\<close>

definition Contains :: "string \<Rightarrow> string \<Rightarrow> bool" where
  "Contains s substr = sublist substr s"

subsection \<open>The types saved to disk\<close>

record KDFParams =
  KDF_N :: int
  KDF_R :: int
  KDF_P :: int
  KDF_L :: int

record keyManager =
  encryptedMKB64 :: string
  encryptedMKNonce :: string

record CipherEntry =
  ID :: string
  Title :: string
  NonceB64 :: string
  CipherB64 :: string
  CreatedAt :: time
  ModifiedAt :: time

record PlainEntry =
  Username :: string
  Password :: string
  URL :: string
  Notes :: string
  CreatedAt :: time
  ModifiedAt :: time

text \<open>
  A Go map is an association list with distinct keys, in the order in which a
  \<^verbatim>\<open>range\<close> loop happens to visit it; \<open>None\<close> is the nil map.
\<close>

record Vault =
  KDF :: KDFParams
  SaltB64 :: string
  KeyMgr :: keyManager
  VerifyNnc :: string
  VerifyCt :: string
  Entries :: "(string \<times> CipherEntry) list option"

text \<open>Reading a nil map is reading an empty one.\<close>

definition entries_of :: "Vault \<Rightarrow> (string \<times> CipherEntry) list" where
  "entries_of v = (case Entries v of None \<Rightarrow> [] | Some es \<Rightarrow> es)"

definition wf_entries :: "Vault \<Rightarrow> bool" where
  "wf_entries v = distinct (map fst (entries_of v))"

subsection \<open>Listing and searching\<close>

definition List_entries :: "Vault \<Rightarrow> CipherEntry list" where
  "List_entries v = map snd (entries_of v)"

text \<open>
  \<^verbatim>\<open>sort.Slice(out, func(i, j) bool { return out[i].ModifiedAt.After(out[j].ModifiedAt) })\<close>:
  a sort by \<open>ModifiedAt\<close>, latest first. The library promises a sorted permutation and
  no more (it is not stable); insertion by key is one such sort.
\<close>

definition sortByModifiedDesc :: "CipherEntry list \<Rightarrow> CipherEntry list" where
  "sortByModifiedDesc out = sort_key (\<lambda>e. - CipherEntry.ModifiedAt e) out"

definition SearchTitles :: "lib \<Rightarrow> Vault \<Rightarrow> string \<Rightarrow> CipherEntry list" where
  "SearchTitles L v query =
     (let q = ToLower L (TrimSpace query) in
      if q = [] then []
      else sortByModifiedDesc
             (filter (\<lambda>e. Contains (ToLower L (Title e)) q) (map snd (entries_of v))))"

definition FindByExactTitle :: "lib \<Rightarrow> Vault \<Rightarrow> string \<Rightarrow> CipherEntry list" where
  "FindByExactTitle L v title =
     (let t = ToLower L (TrimSpace title) in
      if t = [] then []
      else sortByModifiedDesc
             (filter (\<lambda>e. ToLower L (Title e) = t) (map snd (entries_of v))))"

subsection \<open>Randomness\<close>

text \<open>
  \<^verbatim>\<open>crypto/rand\<close> is a tape of bytes that the caller supplies: a read takes the next
  \<open>n\<close> bytes and leaves the rest, and fails when the tape is too short. Every call in
  the package asks for one of the constants 12, 16 and 32, so \<open>n\<close> is a natural number.
\<close>

definition rand_Read :: "nat \<Rightarrow> bytes \<Rightarrow> (bytes \<times> bytes) option" where
  "rand_Read n rnd = (if length rnd < n then None else Some (take n rnd, drop n rnd))"

definition randomBytes :: "nat \<Rightarrow> bytes \<Rightarrow> error + (bytes \<times> bytes)" where
  "randomBytes n rnd = (case rand_Read n rnd of None \<Rightarrow> Inl RandFailure | Some r \<Rightarrow> Inr r)"

definition GenerateNonce :: "nat \<Rightarrow> bytes \<Rightarrow> error + (bytes \<times> bytes)" where
  "GenerateNonce n rnd =
     (case rand_Read n rnd of
        None \<Rightarrow> Inl (Wrap ''failed to generate random nonce'' RandFailure)
      | Some r \<Rightarrow> Inr r)"

subsection \<open>Package encrypt: AES-GCM\<close>

definition EncryptAESGCM :: "lib \<Rightarrow> bytes \<Rightarrow> bytes \<Rightarrow> bytes \<Rightarrow> bytes \<Rightarrow> error + bytes" where
  "EncryptAESGCM L key nonce plaintext additionalData =
     (if length key \<noteq> 16 \<and> length key \<noteq> 24 \<and> length key \<noteq> 32 then Inl KeySize
      else if length nonce \<noteq> 12 then Inl NonceSize
      else if \<not> aes_NewCipher L key then Inl (Wrap ''failed to create AES cipher'' AesKeySize)
      else if \<not> cipher_NewGCM L key then Inl (Wrap ''failed to create GCM'' GcmBlockSize)
      else Inr (gcm_Seal L key nonce plaintext additionalData))"

definition DecryptAESGCM :: "lib \<Rightarrow> bytes \<Rightarrow> bytes \<Rightarrow> bytes \<Rightarrow> bytes \<Rightarrow> error + bytes" where
  "DecryptAESGCM L key nonce ciphertext additionalData =
     (if length key \<noteq> 16 \<and> length key \<noteq> 24 \<and> length key \<noteq> 32 then Inl KeySize
      else if length nonce \<noteq> 12 then Inl NonceSize
      else if \<not> aes_NewCipher L key then Inl (Wrap ''failed to create AES cipher'' AesKeySize)
      else if \<not> cipher_NewGCM L key then Inl (Wrap ''failed to create GCM'' GcmBlockSize)
      else (case gcm_Open L key nonce ciphertext additionalData of
              None \<Rightarrow>
                Inl (Wrap ''decryption failed (authentication tag verification failed)''
                       GcmAuthFailed)
            | Some plaintext \<Rightarrow> Inr plaintext))"

subsection \<open>Package hash: scrypt and HKDF\<close>

definition Scrypt :: "lib \<Rightarrow> bytes \<Rightarrow> bytes \<Rightarrow> int \<Rightarrow> int \<Rightarrow> int \<Rightarrow> int \<Rightarrow> error + bytes" where
  "Scrypt L password salt N r p keyLen =
     (if keyLen \<le> 0 then Inl KeyLenNotPositive
      else (case scrypt_Key L password salt N r p keyLen of
              None \<Rightarrow> Inl (Wrap ''scrypt key derivation failed'' ScryptParams)
            | Some dk \<Rightarrow> Inr dk))"

text \<open>
  \<^verbatim>\<open>HKDF\<close> makes the reader, then \<^verbatim>\<open>make([]byte, length)\<close>, which panics when the length
  is negative, and then fills the slice from the reader.
\<close>

definition HKDF :: "lib \<Rightarrow> bytes \<Rightarrow> bytes \<Rightarrow> bytes \<Rightarrow> int \<Rightarrow> error + bytes" where
  "HKDF L masterKey salt info len =
     (if len < 0 then Inl MakeSliceLen
      else (case hkdf_Read L masterKey salt info len of
              None \<Rightarrow> Inl (Wrap ''failed to generate HKDF key'' HkdfEntropy)
            | Some key \<Rightarrow> Inr key))"

subsection \<open>The key manager\<close>

definition masterKeySize :: nat where "masterKeySize = 32"
definition kdfN :: int where "kdfN = 32768"
definition kdfr :: int where "kdfr = 8"
definition kdfp :: int where "kdfp = 1"
definition keyLen :: int where "keyLen = 32"
definition verifyMsg :: string where "verifyMsg = ''vault-check''"

definition deriveKey :: "lib \<Rightarrow> string \<Rightarrow> bytes \<Rightarrow> error + bytes" where
  "deriveKey L masterPassword salt = Scrypt L masterPassword salt kdfN kdfr kdfp keyLen"

definition generateMasterKey :: "bytes \<Rightarrow> error + (bytes \<times> bytes)" where
  "generateMasterKey rnd =
     (case rand_Read masterKeySize rnd of
        None \<Rightarrow> Inl (Wrap ''failed to generate master key'' RandFailure)
      | Some r \<Rightarrow> Inr r)"

text \<open>The result carries the rest of the random tape besides the key manager.\<close>

definition wrapMasterKey ::
  "lib \<Rightarrow> bytes \<Rightarrow> bytes \<Rightarrow> string \<Rightarrow> bytes \<Rightarrow> error + (keyManager \<times> bytes)" where
  "wrapMasterKey L rnd masterKey password salt =
     (case deriveKey L password salt of
        Inl e \<Rightarrow> Inl (Wrap ''failed to derive wrapping key'' e)
      | Inr wrappingKey \<Rightarrow>
     (case GenerateNonce 12 rnd of
        Inl e \<Rightarrow> Inl (Wrap ''failed to generate nonce'' e)
      | Inr (nonce, rnd') \<Rightarrow>
     (case EncryptAESGCM L wrappingKey nonce masterKey [] of
        Inl e \<Rightarrow> Inl (Wrap ''failed to encrypt master key'' e)
      | Inr encryptedMK \<Rightarrow>
          Inr (\<lparr>encryptedMKB64 = b64_Std_Encode L encryptedMK,
                encryptedMKNonce = b64_Std_Encode L nonce\<rparr>, rnd'))))"

definition unwrapMasterKey :: "lib \<Rightarrow> keyManager \<Rightarrow> string \<Rightarrow> bytes \<Rightarrow> error + bytes" where
  "unwrapMasterKey L km password salt =
     (case deriveKey L password salt of
        Inl e \<Rightarrow> Inl (Wrap ''failed to derive wrapping key'' e)
      | Inr wrappingKey \<Rightarrow>
     (case b64_Std_Decode L (encryptedMKB64 km) of
        None \<Rightarrow> Inl (Wrap ''failed to decode encrypted master key'' Base64Corrupt)
      | Some encryptedMK \<Rightarrow>
     (case b64_Std_Decode L (encryptedMKNonce km) of
        None \<Rightarrow> Inl (Wrap ''failed to decode nonce'' Base64Corrupt)
      | Some nonce \<Rightarrow>
     (case DecryptAESGCM L wrappingKey nonce encryptedMK [] of
        Inl e \<Rightarrow> Inl (Wrap ''failed to decrypt master key'' e)
      | Inr masterKey \<Rightarrow> Inr masterKey))))"

definition deriveEntryKey :: "lib \<Rightarrow> bytes \<Rightarrow> string \<Rightarrow> error + bytes" where
  "deriveEntryKey L masterKey entryID = HKDF L masterKey entryID ''entry-key'' 32"

subsection \<open>Vault lifecycle\<close>

definition defaultKDF :: KDFParams where
  "defaultKDF = \<lparr>KDF_N = kdfN, KDF_R = kdfr, KDF_P = kdfp, KDF_L = keyLen\<rparr>"

text \<open>
  \<^verbatim>\<open>Create\<close> reads, in this order, the salt, the master key, the nonce of the wrapped key
  and the nonce of the verification block from the random source.
\<close>

definition Create :: "lib \<Rightarrow> bytes \<Rightarrow> string \<Rightarrow> error + (Vault \<times> bytes)" where
  "Create L rnd masterPassword =
     (case randomBytes 32 rnd of
        Inl e \<Rightarrow> Inl e
      | Inr (salt, rnd1) \<Rightarrow>
     (case deriveKey L masterPassword salt of
        Inl e \<Rightarrow> Inl e
      | Inr key \<Rightarrow>
     (case generateMasterKey rnd1 of
        Inl e \<Rightarrow> Inl (Wrap ''failed to generate master key'' e)
      | Inr (masterKey, rnd2) \<Rightarrow>
     (case wrapMasterKey L rnd2 masterKey masterPassword salt of
        Inl e \<Rightarrow> Inl (Wrap ''failed to wrap master key'' e)
      | Inr (km, rnd3) \<Rightarrow>
     (case GenerateNonce 12 rnd3 of
        Inl e \<Rightarrow> Inl e
      | Inr (nonce, rnd4) \<Rightarrow>
     (case EncryptAESGCM L key nonce verifyMsg [] of
        Inl e \<Rightarrow> Inl e
      | Inr ct \<Rightarrow>
          Inr (\<lparr>KDF = defaultKDF, SaltB64 = b64_Std_Encode L salt, KeyMgr = km,
                VerifyNnc = b64_Std_Encode L nonce, VerifyCt = b64_Std_Encode L ct,
                Entries = Some []\<rparr>, masterKey)))))))"

definition CreateWithExistingKey :: "lib \<Rightarrow> bytes \<Rightarrow> string \<Rightarrow> bytes \<Rightarrow> error + Vault" where
  "CreateWithExistingKey L rnd masterPassword masterKey =
     (case randomBytes 32 rnd of
        Inl e \<Rightarrow> Inl (Wrap ''failed to generate salt'' e)
      | Inr (salt, rnd1) \<Rightarrow>
     (case deriveKey L masterPassword salt of
        Inl e \<Rightarrow> Inl (Wrap ''failed to derive key'' e)
      | Inr key \<Rightarrow>
     (case wrapMasterKey L rnd1 masterKey masterPassword salt of
        Inl e \<Rightarrow> Inl (Wrap ''failed to wrap master key'' e)
      | Inr (km, rnd2) \<Rightarrow>
     (case GenerateNonce 12 rnd2 of
        Inl e \<Rightarrow> Inl (Wrap ''failed to generate nonce'' e)
      | Inr (nonce, rnd3) \<Rightarrow>
     (case EncryptAESGCM L key nonce verifyMsg [] of
        Inl e \<Rightarrow> Inl (Wrap ''failed to create verification block'' e)
      | Inr ct \<Rightarrow>
          Inr \<lparr>KDF = defaultKDF, SaltB64 = b64_Std_Encode L salt, KeyMgr = km,
               VerifyNnc = b64_Std_Encode L nonce, VerifyCt = b64_Std_Encode L ct,
               Entries = Some []\<rparr>)))))"

text \<open>The receiver of \<^verbatim>\<open>Unlock\<close> is a pointer; \<open>None\<close> is the nil pointer.\<close>

definition Unlock :: "lib \<Rightarrow> Vault option \<Rightarrow> string \<Rightarrow> error + bytes" where
  "Unlock L vp masterPassword =
     (case vp of
        None \<Rightarrow> Inl NilVault
      | Some v \<Rightarrow>
     (case b64_Std_Decode L (SaltB64 v) of
        None \<Rightarrow> Inl (Wrap ''bad salt'' Base64Corrupt)
      | Some salt \<Rightarrow>
     (case deriveKey L masterPassword salt of
        Inl e \<Rightarrow> Inl e
      | Inr key \<Rightarrow>
     (case b64_Std_Decode L (VerifyNnc v) of
        None \<Rightarrow> Inl (Wrap ''bad verify nonce'' Base64Corrupt)
      | Some nonce \<Rightarrow>
     (case b64_Std_Decode L (VerifyCt v) of
        None \<Rightarrow> Inl (Wrap ''bad verify ct'' Base64Corrupt)
      | Some ct \<Rightarrow>
     (case DecryptAESGCM L key nonce ct [] of
        Inl e \<Rightarrow> Inl WrongMasterPassword
      | Inr pt \<Rightarrow>
          if pt \<noteq> verifyMsg then Inl WrongMasterPassword
          else (case unwrapMasterKey L (KeyMgr v) masterPassword salt of
                  Inl e \<Rightarrow> Inl (Wrap ''failed to unwrap master key'' e)
                | Inr masterKey \<Rightarrow> Inr masterKey)))))))"

subsection \<open>Entries as JSON\<close>

text \<open>
  \<^verbatim>\<open>json.Marshal\<close> of a \<^verbatim>\<open>PlainEntry\<close>: the exported fields under their tags, in the
  order of declaration; \<^verbatim>\<open>url\<close> and \<^verbatim>\<open>notes\<close> are \<^verbatim>\<open>omitempty\<close>.
\<close>

definition PlainEntry_json :: "lib \<Rightarrow> PlainEntry \<Rightarrow> error + json" where
  "PlainEntry_json L p =
     (case time_MarshalJSON L (PlainEntry.CreatedAt p) of
        None \<Rightarrow> Inl JsonMarshal
      | Some c \<Rightarrow>
     (case time_MarshalJSON L (PlainEntry.ModifiedAt p) of
        None \<Rightarrow> Inl JsonMarshal
      | Some m \<Rightarrow>
          Inr (JObj ([(''username'', JStr (Username p)), (''password'', JStr (Password p))]
                 @ (if URL p = [] then [] else [(''url'', JStr (URL p))])
                 @ (if Notes p = [] then [] else [(''notes'', JStr (Notes p))])
                 @ [(''createdAt'', JStr c), (''modifiedAt'', JStr m)]))))"

definition CipherEntry_json :: "lib \<Rightarrow> CipherEntry \<Rightarrow> error + json" where
  "CipherEntry_json L e =
     (case time_MarshalJSON L (CipherEntry.CreatedAt e) of
        None \<Rightarrow> Inl JsonMarshal
      | Some c \<Rightarrow>
     (case time_MarshalJSON L (CipherEntry.ModifiedAt e) of
        None \<Rightarrow> Inl JsonMarshal
      | Some m \<Rightarrow>
          Inr (JObj [(''id'', JStr (ID e)), (''title'', JStr (Title e)),
                     (''nonce'', JStr (NonceB64 e)), (''ciphertext'', JStr (CipherB64 e)),
                     (''createdAt'', JStr c), (''modifiedAt'', JStr m)])))"

text \<open>
  Decoding. A JSON \<^verbatim>\<open>null\<close> leaves a Go string, number, struct or time as it is (and
  sets a map to nil); a value of another kind than the Go type asks for is an error. The members of an object are taken in their order; a
  key selects the field whose name it equals, or else the first field whose name it
  equals up to case folding, and a key that selects no field is skipped.
\<close>

definition decString :: "json \<Rightarrow> string \<Rightarrow> error + string" where
  "decString j cur = (case j of JNull \<Rightarrow> Inr cur | JStr s \<Rightarrow> Inr s | _ \<Rightarrow> Inl JsonDecode)"

definition decInt :: "json \<Rightarrow> int \<Rightarrow> error + int" where
  "decInt j cur =
     (case j of
        JNull \<Rightarrow> Inr cur
      | JNum n \<Rightarrow> if - (2 ^ 63) \<le> n \<and> n < 2 ^ 63 then Inr n else Inl JsonDecode
      | _ \<Rightarrow> Inl JsonDecode)"

definition decTime :: "lib \<Rightarrow> json \<Rightarrow> time \<Rightarrow> error + time" where
  "decTime L j cur =
     (case j of
        JNull \<Rightarrow> Inr cur
      | JStr s \<Rightarrow> (case time_UnmarshalJSON L s of None \<Rightarrow> Inl JsonDecode | Some t \<Rightarrow> Inr t)
      | _ \<Rightarrow> Inl JsonDecode)"

definition matchField :: "lib \<Rightarrow> string list \<Rightarrow> string \<Rightarrow> string option" where
  "matchField L names key =
     (case find (\<lambda>n. n = key) names of
        Some n \<Rightarrow> Some n
      | None \<Rightarrow> find (\<lambda>n. json_EqualFold L n key) names)"

fun decMembers ::
  "('s \<Rightarrow> string \<times> json \<Rightarrow> error + 's) \<Rightarrow> 's \<Rightarrow> (string \<times> json) list \<Rightarrow> error + 's" where
  "decMembers step s [] = Inr s"
| "decMembers step s (m # ms) =
     (case step s m of Inl e \<Rightarrow> Inl e | Inr s' \<Rightarrow> decMembers step s' ms)"

definition decStruct ::
  "('s \<Rightarrow> string \<times> json \<Rightarrow> error + 's) \<Rightarrow> json \<Rightarrow> 's \<Rightarrow> error + 's" where
  "decStruct step j cur =
     (case j of JNull \<Rightarrow> Inr cur | JObj ms \<Rightarrow> decMembers step cur ms | _ \<Rightarrow> Inl JsonDecode)"

definition zeroPlainEntry :: PlainEntry where
  "zeroPlainEntry =
     \<lparr>Username = [], Password = [], URL = [], Notes = [],
      PlainEntry.CreatedAt = 0, PlainEntry.ModifiedAt = 0\<rparr>"

definition zeroCipherEntry :: CipherEntry where
  "zeroCipherEntry =
     \<lparr>ID = [], Title = [], NonceB64 = [], CipherB64 = [],
      CipherEntry.CreatedAt = 0, CipherEntry.ModifiedAt = 0\<rparr>"

definition decPlainField :: "lib \<Rightarrow> PlainEntry \<Rightarrow> string \<times> json \<Rightarrow> error + PlainEntry" where
  "decPlainField L p m =
     (case matchField L
             [''username'', ''password'', ''url'', ''notes'', ''createdAt'', ''modifiedAt'']
             (fst m) of
        None \<Rightarrow> Inr p
      | Some f \<Rightarrow>
          if f = ''username'' then
            map_sum id (\<lambda>x. p\<lparr>Username := x\<rparr>) (decString (snd m) (Username p))
          else if f = ''password'' then
            map_sum id (\<lambda>x. p\<lparr>Password := x\<rparr>) (decString (snd m) (Password p))
          else if f = ''url'' then
            map_sum id (\<lambda>x. p\<lparr>URL := x\<rparr>) (decString (snd m) (URL p))
          else if f = ''notes'' then
            map_sum id (\<lambda>x. p\<lparr>Notes := x\<rparr>) (decString (snd m) (Notes p))
          else if f = ''createdAt'' then
            map_sum id (\<lambda>x. p\<lparr>PlainEntry.CreatedAt := x\<rparr>)
              (decTime L (snd m) (PlainEntry.CreatedAt p))
          else
            map_sum id (\<lambda>x. p\<lparr>PlainEntry.ModifiedAt := x\<rparr>)
              (decTime L (snd m) (PlainEntry.ModifiedAt p)))"

definition decCipherField :: "lib \<Rightarrow> CipherEntry \<Rightarrow> string \<times> json \<Rightarrow> error + CipherEntry" where
  "decCipherField L e m =
     (case matchField L
             [''id'', ''title'', ''nonce'', ''ciphertext'', ''createdAt'', ''modifiedAt'']
             (fst m) of
        None \<Rightarrow> Inr e
      | Some f \<Rightarrow>
          if f = ''id'' then
            map_sum id (\<lambda>x. e\<lparr>ID := x\<rparr>) (decString (snd m) (ID e))
          else if f = ''title'' then
            map_sum id (\<lambda>x. e\<lparr>Title := x\<rparr>) (decString (snd m) (Title e))
          else if f = ''nonce'' then
            map_sum id (\<lambda>x. e\<lparr>NonceB64 := x\<rparr>) (decString (snd m) (NonceB64 e))
          else if f = ''ciphertext'' then
            map_sum id (\<lambda>x. e\<lparr>CipherB64 := x\<rparr>) (decString (snd m) (CipherB64 e))
          else if f = ''createdAt'' then
            map_sum id (\<lambda>x. e\<lparr>CipherEntry.CreatedAt := x\<rparr>)
              (decTime L (snd m) (CipherEntry.CreatedAt e))
          else
            map_sum id (\<lambda>x. e\<lparr>CipherEntry.ModifiedAt := x\<rparr>)
              (decTime L (snd m) (CipherEntry.ModifiedAt e)))"

text \<open>\<^verbatim>\<open>json.Marshal(plain)\<close> and \<^verbatim>\<open>json.Unmarshal(pt, &plain)\<close> on a zero \<^verbatim>\<open>plain\<close>.\<close>

definition Marshal_PlainEntry :: "lib \<Rightarrow> PlainEntry \<Rightarrow> error + bytes" where
  "Marshal_PlainEntry L p = map_sum id (json_Text L) (PlainEntry_json L p)"

definition Unmarshal_PlainEntry :: "lib \<Rightarrow> bytes \<Rightarrow> error + PlainEntry" where
  "Unmarshal_PlainEntry L data =
     (case json_Parse L data of
        None \<Rightarrow> Inl JsonSyntax
      | Some j \<Rightarrow> decStruct (decPlainField L) j zeroPlainEntry)"

subsection \<open>CRUD operations\<close>

text \<open>
  A method that changes the vault returns the vault as it is afterwards besides its Go
  result. \<^verbatim>\<open>time.Now().UTC()\<close> is the argument \<open>now\<close>.
\<close>

definition AddEntry ::
  "lib \<Rightarrow> bytes \<Rightarrow> time \<Rightarrow> Vault option \<Rightarrow> bytes \<Rightarrow> string \<Rightarrow> string \<Rightarrow> string \<Rightarrow> string \<Rightarrow> string
     \<Rightarrow> (error + string) \<times> Vault option" where
  "AddEntry L rnd now vp key title username password url notes =
     (case vp of
        None \<Rightarrow> (Inl NilVault, None)
      | Some v \<Rightarrow>
     (case randomBytes 16 rnd of
        Inl e \<Rightarrow> (Inl e, Some v)
      | Inr (idBytes, rnd1) \<Rightarrow>
     (let eid = b64_RawURL_Encode L idBytes;
          plain = \<lparr>Username = username, Password = password, URL = url, Notes = notes,
                   PlainEntry.CreatedAt = now, PlainEntry.ModifiedAt = now\<rparr>
      in
     (case Marshal_PlainEntry L plain of
        Inl e \<Rightarrow> (Inl e, Some v)
      | Inr blob \<Rightarrow>
     (case GenerateNonce 12 rnd1 of
        Inl e \<Rightarrow> (Inl e, Some v)
      | Inr (nonce, rnd2) \<Rightarrow>
     (case deriveEntryKey L key eid of
        Inl e \<Rightarrow> (Inl (Wrap ''failed to derive entry key'' e), Some v)
      | Inr entryKey \<Rightarrow>
     (case EncryptAESGCM L entryKey nonce blob eid of
        Inl e \<Rightarrow> (Inl e, Some v)
      | Inr ct \<Rightarrow>
     (case Entries v of
        None \<Rightarrow> (Inl NilMapAssignment, Some v)
      | Some es \<Rightarrow>
          (Inr eid,
           Some (v\<lparr>Entries := Some (AList.update eid
                    \<lparr>ID = eid, Title = title, NonceB64 = b64_Std_Encode L nonce,
                     CipherB64 = b64_Std_Encode L ct,
                     CipherEntry.CreatedAt = now, CipherEntry.ModifiedAt = now\<rparr> es)\<rparr>))))))))))"

text \<open>
  \<^verbatim>\<open>GetDecrypted\<close> returns pointers to a fresh \<^verbatim>\<open>PlainEntry\<close> and to \<^verbatim>\<open>e\<close>, the copy
  of the map element that \<^verbatim>\<open>e, ok := v.Entries[id]\<close> made: values, not references into
  the map.
\<close>

definition GetDecrypted :: "lib \<Rightarrow> Vault \<Rightarrow> bytes \<Rightarrow> string \<Rightarrow> error + (PlainEntry \<times> CipherEntry)" where
  "GetDecrypted L v key eid =
     (case map_of (entries_of v) eid of
        None \<Rightarrow> Inl NoSuchId
      | Some e \<Rightarrow>
     (case b64_Std_Decode L (NonceB64 e) of
        None \<Rightarrow> Inl (Wrap ''bad nonce'' Base64Corrupt)
      | Some nonce \<Rightarrow>
     (case b64_Std_Decode L (CipherB64 e) of
        None \<Rightarrow> Inl (Wrap ''bad ciphertext'' Base64Corrupt)
      | Some ct \<Rightarrow>
     (case deriveEntryKey L key eid of
        Inl err \<Rightarrow> Inl (Wrap ''failed to derive entry key'' err)
      | Inr entryKey \<Rightarrow>
     (case DecryptAESGCM L entryKey nonce ct eid of
        Inl err \<Rightarrow> Inl err
      | Inr pt \<Rightarrow>
     (case Unmarshal_PlainEntry L pt of
        Inl err \<Rightarrow> Inl err
      | Inr plain \<Rightarrow> Inr (plain, e)))))))"

text \<open>The five pointer arguments of \<^verbatim>\<open>UpdateEntry\<close> are options; \<open>None\<close> is nil.\<close>

definition UpdateEntry ::
  "lib \<Rightarrow> bytes \<Rightarrow> time \<Rightarrow> Vault \<Rightarrow> bytes \<Rightarrow> string \<Rightarrow> string option \<Rightarrow> string option
     \<Rightarrow> string option \<Rightarrow> string option \<Rightarrow> string option \<Rightarrow> error option \<times> Vault" where
  "UpdateEntry L rnd now v key eid title username password url notes =
     (case GetDecrypted L v key eid of
        Inl e \<Rightarrow> (Some e, v)
      | Inr (plain0, meta0) \<Rightarrow>
     (let meta1 = (case title of None \<Rightarrow> meta0 | Some x \<Rightarrow> meta0\<lparr>Title := x\<rparr>);
          plain1 = (case username of None \<Rightarrow> plain0 | Some x \<Rightarrow> plain0\<lparr>Username := x\<rparr>);
          plain2 = (case password of None \<Rightarrow> plain1 | Some x \<Rightarrow> plain1\<lparr>Password := x\<rparr>);
          plain3 = (case url of None \<Rightarrow> plain2 | Some x \<Rightarrow> plain2\<lparr>URL := x\<rparr>);
          plain4 = (case notes of None \<Rightarrow> plain3 | Some x \<Rightarrow> plain3\<lparr>Notes := x\<rparr>);
          plain = plain4\<lparr>PlainEntry.ModifiedAt := now\<rparr>;
          meta = meta1\<lparr>CipherEntry.ModifiedAt := now\<rparr>
      in
     (case Marshal_PlainEntry L plain of
        Inl e \<Rightarrow> (Some e, v)
      | Inr blob \<Rightarrow>
     (case GenerateNonce 12 rnd of
        Inl e \<Rightarrow> (Some e, v)
      | Inr (nonce, rnd1) \<Rightarrow>
     (case deriveEntryKey L key eid of
        Inl e \<Rightarrow> (Some (Wrap ''failed to derive entry key'' e), v)
      | Inr entryKey \<Rightarrow>
     (case EncryptAESGCM L entryKey nonce blob eid of
        Inl e \<Rightarrow> (Some e, v)
      | Inr ct \<Rightarrow>
          (None,
           v\<lparr>Entries := Some (AList.update eid
                (meta\<lparr>NonceB64 := b64_Std_Encode L nonce,
                      CipherB64 := b64_Std_Encode L ct\<rparr>) (entries_of v))\<rparr>)))))))"

definition Delete :: "Vault \<Rightarrow> string \<Rightarrow> bool \<times> Vault" where
  "Delete v eid =
     (case map_of (entries_of v) eid of
        None \<Rightarrow> (False, v)
      | Some _ \<Rightarrow> (True, v\<lparr>Entries := Some (AList.delete eid (entries_of v))\<rparr>))"

subsection \<open>Saving and loading\<close>

text \<open>
  \<^verbatim>\<open>json.MarshalIndent(v, "", "  ")\<close> of a \<^verbatim>\<open>Vault\<close>. The type \<^verbatim>\<open>keyManager\<close> has the
  two fields \<^verbatim>\<open>encryptedMKB64\<close> and \<^verbatim>\<open>encryptedMKNonce\<close>, both unexported, and
  \<^verbatim>\<open>encoding/json\<close> reads and writes exported fields only: the member
  \<^verbatim>\<open>keyManager\<close> is the empty object. A map is written with its keys sorted, a nil map
  as \<^verbatim>\<open>null\<close>.
\<close>

fun entries_json :: "lib \<Rightarrow> (string \<times> CipherEntry) list \<Rightarrow> error + (string \<times> json) list" where
  "entries_json L [] = Inr []"
| "entries_json L (m # ms) =
     (case CipherEntry_json L (snd m) of
        Inl e \<Rightarrow> Inl e
      | Inr j \<Rightarrow>
          (case entries_json L ms of Inl e \<Rightarrow> Inl e | Inr js \<Rightarrow> Inr ((fst m, j) # js)))"

definition keyManager_json :: "keyManager \<Rightarrow> json" where
  "keyManager_json km = JObj []"

definition Vault_json :: "lib \<Rightarrow> Vault \<Rightarrow> error + json" where
  "Vault_json L v =
     (case (case Entries v of
              None \<Rightarrow> Inr JNull
            | Some es \<Rightarrow> map_sum id JObj (entries_json L (sort_key fst es))) of
        Inl e \<Rightarrow> Inl e
      | Inr ej \<Rightarrow>
          Inr (JObj [(''kdf'', JObj [(''N'', JNum (KDF_N (KDF v))), (''r'', JNum (KDF_R (KDF v))),
                                    (''p'', JNum (KDF_P (KDF v))),
                                    (''keyLen'', JNum (KDF_L (KDF v)))]),
                     (''salt'', JStr (SaltB64 v)),
                     (''keyManager'', keyManager_json (KeyMgr v)),
                     (''verify_nonce'', JStr (VerifyNnc v)),
                     (''verify_ct'', JStr (VerifyCt v)),
                     (''entries'', ej)]))"

definition decKDFField :: "lib \<Rightarrow> KDFParams \<Rightarrow> string \<times> json \<Rightarrow> error + KDFParams" where
  "decKDFField L k m =
     (case matchField L [''N'', ''r'', ''p'', ''keyLen''] (fst m) of
        None \<Rightarrow> Inr k
      | Some f \<Rightarrow>
          if f = ''N'' then map_sum id (\<lambda>x. k\<lparr>KDF_N := x\<rparr>) (decInt (snd m) (KDF_N k))
          else if f = ''r'' then map_sum id (\<lambda>x. k\<lparr>KDF_R := x\<rparr>) (decInt (snd m) (KDF_R k))
          else if f = ''p'' then map_sum id (\<lambda>x. k\<lparr>KDF_P := x\<rparr>) (decInt (snd m) (KDF_P k))
          else map_sum id (\<lambda>x. k\<lparr>KDF_L := x\<rparr>) (decInt (snd m) (KDF_L k)))"

text \<open>No key selects a field of a \<^verbatim>\<open>keyManager\<close>: every member is skipped.\<close>

definition decKeyMgrField :: "keyManager \<Rightarrow> string \<times> json \<Rightarrow> error + keyManager" where
  "decKeyMgrField km m = Inr km"

text \<open>
  A JSON object decoded into the map: a nil map is made first, and every member stores
  an entry decoded from the zero \<^verbatim>\<open>CipherEntry\<close> under its key. A JSON \<^verbatim>\<open>null\<close> sets the
  map to nil, whatever it held.
\<close>

definition decEntries ::
  "lib \<Rightarrow> json \<Rightarrow> (string \<times> CipherEntry) list option
     \<Rightarrow> error + (string \<times> CipherEntry) list option" where
  "decEntries L j cur =
     (case j of
        JNull \<Rightarrow> Inr None
      | JObj ms \<Rightarrow>
          map_sum id Some
            (decMembers
               (\<lambda>es m. map_sum id (\<lambda>e. AList.update (fst m) e es)
                          (decStruct (decCipherField L) (snd m) zeroCipherEntry))
               (case cur of None \<Rightarrow> [] | Some es \<Rightarrow> es) ms)
      | _ \<Rightarrow> Inl JsonDecode)"

definition decVaultField :: "lib \<Rightarrow> Vault \<Rightarrow> string \<times> json \<Rightarrow> error + Vault" where
  "decVaultField L v m =
     (case matchField L
             [''kdf'', ''salt'', ''keyManager'', ''verify_nonce'', ''verify_ct'', ''entries'']
             (fst m) of
        None \<Rightarrow> Inr v
      | Some f \<Rightarrow>
          if f = ''kdf'' then
            map_sum id (\<lambda>x. v\<lparr>KDF := x\<rparr>) (decStruct (decKDFField L) (snd m) (KDF v))
          else if f = ''salt'' then
            map_sum id (\<lambda>x. v\<lparr>SaltB64 := x\<rparr>) (decString (snd m) (SaltB64 v))
          else if f = ''keyManager'' then
            map_sum id (\<lambda>x. v\<lparr>KeyMgr := x\<rparr>) (decStruct decKeyMgrField (snd m) (KeyMgr v))
          else if f = ''verify_nonce'' then
            map_sum id (\<lambda>x. v\<lparr>VerifyNnc := x\<rparr>) (decString (snd m) (VerifyNnc v))
          else if f = ''verify_ct'' then
            map_sum id (\<lambda>x. v\<lparr>VerifyCt := x\<rparr>) (decString (snd m) (VerifyCt v))
          else
            map_sum id (\<lambda>x. v\<lparr>Entries := x\<rparr>) (decEntries L (snd m) (Entries v)))"

definition zeroVault :: Vault where
  "zeroVault =
     \<lparr>KDF = \<lparr>KDF_N = 0, KDF_R = 0, KDF_P = 0, KDF_L = 0\<rparr>, SaltB64 = [],
      KeyMgr = \<lparr>encryptedMKB64 = [], encryptedMKNonce = []\<rparr>,
      VerifyNnc = [], VerifyCt = [], Entries = None\<rparr>"

definition Unmarshal_Vault :: "lib \<Rightarrow> bytes \<Rightarrow> error + Vault" where
  "Unmarshal_Vault L data =
     (case json_Parse L data of
        None \<Rightarrow> Inl JsonSyntax
      | Some j \<Rightarrow> decStruct (decVaultField L) j zeroVault)"

text \<open>The file system: the content of each readable path, and the paths that can be written.\<close>

record filesystem =
  files :: "string \<Rightarrow> bytes option"
  writable :: "string \<Rightarrow> bool"

definition os_ReadFile :: "filesystem \<Rightarrow> string \<Rightarrow> error + bytes" where
  "os_ReadFile fs path = (case files fs path of None \<Rightarrow> Inl FileNotReadable | Some d \<Rightarrow> Inr d)"

definition os_WriteFile :: "filesystem \<Rightarrow> string \<Rightarrow> bytes \<Rightarrow> error option \<times> filesystem" where
  "os_WriteFile fs path data =
     (if writable fs path then (None, fs\<lparr>files := (files fs)(path \<mapsto> data)\<rparr>)
      else (Some FileNotWritable, fs))"

definition Save :: "lib \<Rightarrow> Vault \<Rightarrow> string \<Rightarrow> filesystem \<Rightarrow> error option \<times> filesystem" where
  "Save L v path fs =
     (case Vault_json L v of
        Inl e \<Rightarrow> (Some e, fs)
      | Inr j \<Rightarrow> os_WriteFile fs path (json_TextIndent L j))"

definition Load :: "lib \<Rightarrow> filesystem \<Rightarrow> string \<Rightarrow> error + Vault" where
  "Load L fs path =
     (case os_ReadFile fs path of
        Inl e \<Rightarrow> Inl e
      | Inr data \<Rightarrow>
     (case Unmarshal_Vault L data of
        Inl e \<Rightarrow> Inl e
      | Inr v \<Rightarrow> Inr (if Entries v = None then v\<lparr>Entries := Some []\<rparr> else v)))"

subsection \<open>Loading the second format\<close>

text \<open>
  \<^verbatim>\<open>vault_v2.go\<close> has a second type of vault, with a version and without the
  verification block, and its own loader. Its fields have the names of the fields of
  \<^verbatim>\<open>Vault\<close>; here they carry the suffix \<open>_V2\<close>.
\<close>

record VaultV2 =
  KDF_V2 :: KDFParams
  SaltB64_V2 :: string
  KeyMgr_V2 :: keyManager
  Entries_V2 :: "(string \<times> CipherEntry) list option"
  Version :: int

definition decVaultV2Field :: "lib \<Rightarrow> VaultV2 \<Rightarrow> string \<times> json \<Rightarrow> error + VaultV2" where
  "decVaultV2Field L v m =
     (case matchField L [''kdf'', ''salt'', ''keyManager'', ''entries'', ''version''] (fst m) of
        None \<Rightarrow> Inr v
      | Some f \<Rightarrow>
          if f = ''kdf'' then
            map_sum id (\<lambda>x. v\<lparr>KDF_V2 := x\<rparr>) (decStruct (decKDFField L) (snd m) (KDF_V2 v))
          else if f = ''salt'' then
            map_sum id (\<lambda>x. v\<lparr>SaltB64_V2 := x\<rparr>) (decString (snd m) (SaltB64_V2 v))
          else if f = ''keyManager'' then
            map_sum id (\<lambda>x. v\<lparr>KeyMgr_V2 := x\<rparr>)
              (decStruct decKeyMgrField (snd m) (KeyMgr_V2 v))
          else if f = ''entries'' then
            map_sum id (\<lambda>x. v\<lparr>Entries_V2 := x\<rparr>) (decEntries L (snd m) (Entries_V2 v))
          else
            map_sum id (\<lambda>x. v\<lparr>Version := x\<rparr>) (decInt (snd m) (Version v)))"

definition zeroVaultV2 :: VaultV2 where
  "zeroVaultV2 =
     \<lparr>KDF_V2 = \<lparr>KDF_N = 0, KDF_R = 0, KDF_P = 0, KDF_L = 0\<rparr>, SaltB64_V2 = [],
      KeyMgr_V2 = \<lparr>encryptedMKB64 = [], encryptedMKNonce = []\<rparr>,
      Entries_V2 = None, Version = 0\<rparr>"

definition Unmarshal_VaultV2 :: "lib \<Rightarrow> bytes \<Rightarrow> error + VaultV2" where
  "Unmarshal_VaultV2 L data =
     (case json_Parse L data of
        None \<Rightarrow> Inl JsonSyntax
      | Some j \<Rightarrow> decStruct (decVaultV2Field L) j zeroVaultV2)"

definition LoadV2 :: "lib \<Rightarrow> filesystem \<Rightarrow> string \<Rightarrow> error + VaultV2" where
  "LoadV2 L fs path =
     (case os_ReadFile fs path of
        Inl e \<Rightarrow> Inl e
      | Inr data \<Rightarrow>
     (case Unmarshal_VaultV2 L data of
        Inl e \<Rightarrow> Inl e
      | Inr v \<Rightarrow>
          if Version v \<noteq> 2 then Inl (UnsupportedVersion (Version v))
          else Inr (if Entries_V2 v = None then v\<lparr>Entries_V2 := Some []\<rparr> else v)))"

subsection \<open>What the theorems assume of the libraries\<close>

text \<open>Standard base64 decodes what it encoded.\<close>

definition b64_ok :: "lib \<Rightarrow> bool" where
  "b64_ok L = (\<forall>x. b64_Std_Decode L (b64_Std_Encode L x) = Some x)"

text \<open>
  With a key of 16, 24 or 32 bytes and a nonce of 12 bytes, AES-GCM opens what it sealed
  under the same key, nonce and additional data.
\<close>

definition gcm_ok :: "lib \<Rightarrow> bool" where
  "gcm_ok L =
     (\<forall>key nonce pt ad.
        (length key = 16 \<or> length key = 24 \<or> length key = 32) \<and> length nonce = 12 \<longrightarrow>
        gcm_Open L key nonce (gcm_Seal L key nonce pt ad) ad = Some pt)"

text \<open>A sealed text is 16 bytes, the tag, longer than the plaintext.\<close>

definition gcm_tag16 :: "lib \<Rightarrow> bool" where
  "gcm_tag16 L =
     (\<forall>key nonce pt ad.
        (length key = 16 \<or> length key = 24 \<or> length key = 32) \<and> length nonce = 12 \<longrightarrow>
        length (gcm_Seal L key nonce pt ad) = length pt + 16)"

text \<open>The JSON text of this \<^verbatim>\<open>PlainEntry\<close> decodes to it again.\<close>

definition json_roundtrip :: "lib \<Rightarrow> PlainEntry \<Rightarrow> bool" where
  "json_roundtrip L p =
     (case Marshal_PlainEntry L p of
        Inl e \<Rightarrow> True
      | Inr blob \<Rightarrow> Unmarshal_PlainEntry L blob = Inr p)"

text \<open>The JSON text of an instant is read back as that instant.\<close>

definition time_ok :: "lib \<Rightarrow> bool" where
  "time_ok L = (\<forall>t s. time_MarshalJSON L t = Some s \<longrightarrow> time_UnmarshalJSON L s = Some t)"

text \<open>The four KDF parameters are Go \<^verbatim>\<open>int\<close>s: they fit in 64 bits.\<close>

definition kdf_ints :: "KDFParams \<Rightarrow> bool" where
  "kdf_ints k =
     (list_all (\<lambda>n. - (2 ^ 63) \<le> n \<and> n < 2 ^ 63) [KDF_N k, KDF_R k, KDF_P k, KDF_L k])"

text \<open>A query that consists of white space and nothing else.\<close>

inductive whitespaceOnly :: "string \<Rightarrow> bool" where
  empty: "whitespaceOnly []"
| ascii: "asciiSpace c \<Longrightarrow> whitespaceOnly s \<Longrightarrow> whitespaceOnly (c # s)"
| unicode: "w \<in> set unicodeSpaces \<Longrightarrow> whitespaceOnly s \<Longrightarrow> whitespaceOnly (w @ s)"

subsection \<open>A small instance of the libraries\<close>

text \<open>
  An instance of \<^typ>\<open>lib\<close> that can be run, to show that the assumptions above can be
  met together and to evaluate the operations on concrete vaults: base64 is the
  identity, a key derivation cuts its inputs to length, sealing appends a 16-byte tag
  made from key, additional data and nonce, and JSON text is a prefix code.
\<close>

function toy_digits :: "int \<Rightarrow> string" where
  "toy_digits n =
     (if n < 10 then [char_of (48 + n)] else char_of (48 + n mod 10) # toy_digits (n div 10))"
  by pat_completeness auto
termination
  by (relation "measure nat") auto

declare toy_digits.simps [simp del]

text \<open>A number is written with its decimal digits, the lowest first, and a semicolon.\<close>

definition toy_num :: "int \<Rightarrow> string" where
  "toy_num n = toy_digits n @ '';''"

fun toy_text :: "json \<Rightarrow> string" where
  "toy_text JNull = ''n''"
| "toy_text (JBool b) = (if b then ''t'' else ''f'')"
| "toy_text (JNum i) = (if i < 0 then ''-'' else ''+'') @ toy_num \<bar>i\<bar>"
| "toy_text (JFrac s) = ''r'' @ toy_num (int (length s)) @ s"
| "toy_text (JStr s) = ''s'' @ toy_num (int (length s)) @ s"
| "toy_text (JArr xs) = ''a'' @ toy_num (int (length xs)) @ concat (map toy_text xs)"
| "toy_text (JObj ms) =
     ''o'' @ toy_num (int (length ms))
       @ concat (map (\<lambda>m. toy_num (int (length (fst m))) @ fst m @ toy_text (snd m)) ms)"

fun toy_read_num :: "string \<Rightarrow> (int \<times> string) option" where
  "toy_read_num [] = None"
| "toy_read_num (c # s) =
     (if c = CHR '';'' then Some (0, s)
      else if 48 \<le> (of_char c :: int) \<and> (of_char c :: int) \<le> 57 then
        map_option (\<lambda>r. ((of_char c - 48) + 10 * fst r, snd r)) (toy_read_num s)
      else None)"

definition toy_read_str :: "string \<Rightarrow> (string \<times> string) option" where
  "toy_read_str s =
     (case toy_read_num s of
        None \<Rightarrow> None
      | Some (n, r) \<Rightarrow>
          if int (length r) < n then None else Some (take (nat n) r, drop (nat n) r))"

fun toy_read :: "nat \<Rightarrow> string \<Rightarrow> (json \<times> string) option"
  and toy_read_list :: "nat \<Rightarrow> nat \<Rightarrow> string \<Rightarrow> (json list \<times> string) option"
  and toy_read_members :: "nat \<Rightarrow> nat \<Rightarrow> string \<Rightarrow> ((string \<times> json) list \<times> string) option" where
  "toy_read 0 s = None"
| "toy_read (Suc fuel) [] = None"
| "toy_read (Suc fuel) (c # s) =
     (if c = CHR ''n'' then Some (JNull, s)
      else if c = CHR ''t'' then Some (JBool True, s)
      else if c = CHR ''f'' then Some (JBool False, s)
      else if c = CHR ''+'' then map_option (\<lambda>r. (JNum (fst r), snd r)) (toy_read_num s)
      else if c = CHR ''-'' then map_option (\<lambda>r. (JNum (- fst r), snd r)) (toy_read_num s)
      else if c = CHR ''r'' then map_option (\<lambda>r. (JFrac (fst r), snd r)) (toy_read_str s)
      else if c = CHR ''s'' then map_option (\<lambda>r. (JStr (fst r), snd r)) (toy_read_str s)
      else if c = CHR ''a'' then
        (case toy_read_num s of
           None \<Rightarrow> None
         | Some (n, r) \<Rightarrow>
             map_option (\<lambda>r. (JArr (fst r), snd r)) (toy_read_list fuel (nat n) r))
      else if c = CHR ''o'' then
        (case toy_read_num s of
           None \<Rightarrow> None
         | Some (n, r) \<Rightarrow>
             map_option (\<lambda>r. (JObj (fst r), snd r)) (toy_read_members fuel (nat n) r))
      else None)"
| "toy_read_list 0 n s = None"
| "toy_read_list (Suc fuel) 0 s = Some ([], s)"
| "toy_read_list (Suc fuel) (Suc n) s =
     (case toy_read fuel s of
        None \<Rightarrow> None
      | Some (j, r) \<Rightarrow> map_option (\<lambda>x. (j # fst x, snd x)) (toy_read_list fuel n r))"
| "toy_read_members 0 n s = None"
| "toy_read_members (Suc fuel) 0 s = Some ([], s)"
| "toy_read_members (Suc fuel) (Suc n) s =
     (case toy_read_str s of
        None \<Rightarrow> None
      | Some (k, r) \<Rightarrow>
          (case toy_read fuel r of
             None \<Rightarrow> None
           | Some (j, r') \<Rightarrow>
               map_option (\<lambda>x. ((k, j) # fst x, snd x)) (toy_read_members fuel n r')))"

definition toy_parse :: "string \<Rightarrow> json option" where
  "toy_parse s =
     (case toy_read (Suc (length s)) s of
        Some (j, []) \<Rightarrow> Some j
      | _ \<Rightarrow> None)"

definition toy_tag :: "bytes \<Rightarrow> bytes \<Rightarrow> bytes \<Rightarrow> bytes" where
  "toy_tag key nonce ad = take 16 (take 6 key @ take 6 ad @ nonce @ replicate 16 (CHR ''#''))"

definition toy_seal :: "bytes \<Rightarrow> bytes \<Rightarrow> bytes \<Rightarrow> bytes \<Rightarrow> bytes" where
  "toy_seal key nonce pt ad = pt @ toy_tag key nonce ad"

definition toy_open :: "bytes \<Rightarrow> bytes \<Rightarrow> bytes \<Rightarrow> bytes \<Rightarrow> bytes option" where
  "toy_open key nonce ct ad =
     (if length ct < 16 then None
      else if drop (length ct - 16) ct = toy_tag key nonce ad
      then Some (take (length ct - 16) ct) else None)"

definition toy_kdf :: "bytes \<Rightarrow> bytes \<Rightarrow> int \<Rightarrow> bytes option" where
  "toy_kdf secret salt n = Some (take (nat n) (secret @ salt @ replicate (nat n) (CHR ''.'')))"

definition toy :: lib where
  "toy =
     \<lparr>unicode_ToLower = (\<lambda>s. s),
      json_EqualFold = (\<lambda>a b. map asciiLower a = map asciiLower b),
      b64_Std_Encode = (\<lambda>x. x),
      b64_Std_Decode = Some,
      b64_RawURL_Encode = (\<lambda>x. x),
      scrypt_Key = (\<lambda>password salt N r p n. toy_kdf password salt n),
      hkdf_Read = (\<lambda>secret salt info n. toy_kdf secret (salt @ info) n),
      aes_NewCipher = (\<lambda>key. length key = 16 \<or> length key = 24 \<or> length key = 32),
      cipher_NewGCM = (\<lambda>key. True),
      gcm_Seal = toy_seal,
      gcm_Open = toy_open,
      json_Text = toy_text,
      json_TextIndent = toy_text,
      json_Parse = toy_parse,
      time_MarshalJSON = (\<lambda>t. if 0 \<le> t then Some (toy_num t) else None),
      time_UnmarshalJSON =
        (\<lambda>s. case toy_read_num s of Some (n, []) \<Rightarrow> Some n | _ \<Rightarrow> None)\<rparr>"

subsection \<open>Sample vaults\<close>

definition sample_entry :: "string \<Rightarrow> string \<Rightarrow> time \<Rightarrow> CipherEntry" where
  "sample_entry i t m =
     \<lparr>ID = i, Title = t, NonceB64 = [], CipherB64 = [],
      CipherEntry.CreatedAt = 0, CipherEntry.ModifiedAt = m\<rparr>"

definition sample_vault :: Vault where
  "sample_vault =
     zeroVault\<lparr>Entries := Some [(''id1'', sample_entry ''id1'' ''GitHub'' 5),
                               (''id2'', sample_entry ''id2'' ''a b'' 7),
                               (''id3'', sample_entry ''id3'' '' x'' 6)]\<rparr>"

text \<open>
  A vault made by \<^verbatim>\<open>Create\<close> over the small instance with the password
  \<^verbatim>\<open>hunter2\<close>, and the same vault after one \<^verbatim>\<open>AddEntry\<close>.
\<close>

definition toy_rnd :: bytes where
  "toy_rnd = replicate 32 (CHR ''S'') @ replicate 32 (CHR ''K'')
             @ replicate 12 (CHR ''n'') @ replicate 12 (CHR ''m'')"

definition toy_key :: bytes where
  "toy_key = replicate 32 (CHR ''K'')"

definition toy_eid :: string where
  "toy_eid = replicate 16 (CHR ''i'')"

definition toy_vault0 :: Vault where
  "toy_vault0 =
     \<lparr>KDF = \<lparr>KDF_N = 32768, KDF_R = 8, KDF_P = 1, KDF_L = 32\<rparr>,
      SaltB64 = replicate 32 (CHR ''S''),
      KeyMgr = \<lparr>encryptedMKB64 = replicate 32 (CHR ''K'') @ ''hunternnnnnnnnnn'',
                encryptedMKNonce = ''nnnnnnnnnnnn''\<rparr>,
      VerifyNnc = ''mmmmmmmmmmmm'',
      VerifyCt = ''vault-checkhuntermmmmmmmmmm'',
      Entries = Some []\<rparr>"

definition toy_plain1 :: PlainEntry where
  "toy_plain1 =
     \<lparr>Username = ''alice'', Password = ''S3cret!'', URL = [], Notes = [],
      PlainEntry.CreatedAt = 3, PlainEntry.ModifiedAt = 3\<rparr>"

definition toy_entry1 :: CipherEntry where
  "toy_entry1 =
     \<lparr>ID = toy_eid, Title = ''GitHub'', NonceB64 = ''eeeeeeeeeeee'',
      CipherB64 = toy_seal (take 32 (toy_key @ toy_eid @ ''entry-key'')) ''eeeeeeeeeeee''
                    (toy_text (JObj [(''username'', JStr ''alice''),
                                     (''password'', JStr ''S3cret!''),
                                     (''createdAt'', JStr ''3;''),
                                     (''modifiedAt'', JStr ''3;'')])) toy_eid,
      CipherEntry.CreatedAt = 3, CipherEntry.ModifiedAt = 3\<rparr>"

definition toy_vault1 :: Vault where
  "toy_vault1 = toy_vault0\<lparr>Entries := Some [(toy_eid, toy_entry1)]\<rparr>"

definition toy_fs :: filesystem where
  "toy_fs = \<lparr>files = Map.empty, writable = (\<lambda>path. True)\<rparr>"


text \<open>A file system whose only file is the JSON object with the one member \<^verbatim>\<open>"version": 99\<close>.\<close>

definition toy_fs_v99 :: filesystem where
  "toy_fs_v99 =
     \<lparr>files = [''vault.json'' \<mapsto> toy_text (JObj [(''version'', JNum 99)])],
      writable = (\<lambda>path. True)\<rparr>"

text \<open>The plaintext of the entry of \<open>toy_vault1\<close> after its password and notes are updated.\<close>

definition toy_plain2 :: PlainEntry where
  "toy_plain2 =
     \<lparr>Username = ''alice'', Password = ''n3w'', URL = [], Notes = ''note'',
      PlainEntry.CreatedAt = 3, PlainEntry.ModifiedAt = 9\<rparr>"

text \<open>The entry that this update stores, from the random bytes \<^verbatim>\<open>uuuuuuuuuuuu\<close> at time 9.\<close>

definition toy_entry2 :: CipherEntry where
  "toy_entry2 =
     \<lparr>ID = ''iiiiiiiiiiiiiiii'', Title = ''GitHub'', NonceB64 = ''uuuuuuuuuuuu'',
      CipherB64 = ''o5;8;usernames5;alice8;passwords3;n3w5;notess4;note9;createdAts2;3;01;modifiedAts2;9;KKKKKKiiiiiiuuuu'',
      CipherEntry.CreatedAt = 3, CipherEntry.ModifiedAt = 9\<rparr>"

text \<open>
  The vault that \<^verbatim>\<open>CreateWithExistingKey\<close> makes over the small instance from the key of
  \<open>toy_vault0\<close>; the argument is the first six bytes of the new password.
\<close>

definition toy_rnd2 :: bytes where
  "toy_rnd2 = replicate 32 (CHR ''T'') @ replicate 12 (CHR ''p'') @ replicate 12 (CHR ''q'')"

definition toy_vault2 :: "string \<Rightarrow> Vault" where
  "toy_vault2 pw6 =
     \<lparr>KDF = \<lparr>KDF_N = 32768, KDF_R = 8, KDF_P = 1, KDF_L = 32\<rparr>,
      SaltB64 = replicate 32 (CHR ''T''),
      KeyMgr = \<lparr>encryptedMKB64 = replicate 32 (CHR ''K'') @ pw6 @ ''pppppppppp'',
                encryptedMKNonce = ''pppppppppppp''\<rparr>,
      VerifyNnc = ''qqqqqqqqqqqq'',
      VerifyCt = ''vault-check'' @ pw6 @ ''qqqqqqqqqq'',
      Entries = Some []\<rparr>"

section \<open>Properties\<close>

subsection \<open>Searching with a blank query\<close>

lemma ToLower_Nil: "ToLower L [] = []"
  by (simp add: ToLower_def)

lemma leadingSpace_ascii: "asciiSpace c \<Longrightarrow> leadingSpace (c # s) = 1"
  by (simp add: leadingSpace_def)

lemma leadingSpace_unicode: "w \<in> set unicodeSpaces \<Longrightarrow> leadingSpace (w @ s) = length w"
  by (auto simp add: unicodeSpaces_def leadingSpace_def asciiSpace_def)

lemma unicodeSpaces_nonempty: "w \<in> set unicodeSpaces \<Longrightarrow> 0 < length w"
  by (auto simp add: unicodeSpaces_def)

lemma TrimLeftSpace_whitespaceOnly: "whitespaceOnly s \<Longrightarrow> TrimLeftSpace s = []"
proof (induction rule: whitespaceOnly.induct)
  case empty
  show ?case by (subst TrimLeftSpace.simps) (simp add: leadingSpace_def)
next
  case (ascii c s)
  then show ?case
    by (subst TrimLeftSpace.simps) (simp add: leadingSpace_ascii)
next
  case (unicode w s)
  from unicode.hyps(1) have "0 < length w" by (rule unicodeSpaces_nonempty)
  with unicode show ?case
    by (subst TrimLeftSpace.simps) (simp add: leadingSpace_unicode)
qed

lemma TrimRightSpaceRev_Nil: "TrimRightSpaceRev [] = []"
  by (subst TrimRightSpaceRev.simps) (simp add: trailingSpace_def)

lemma TrimSpace_whitespaceOnly: "whitespaceOnly s \<Longrightarrow> TrimSpace s = []"
  by (simp add: TrimSpace_def TrimLeftSpace_whitespaceOnly TrimRightSpaceRev_Nil)

text \<open>
  C10. For every vault, \<^verbatim>\<open>SearchTitles\<close> and \<^verbatim>\<open>FindByExactTitle\<close> called with a
  query that is empty or consists of white space only return the empty result, however
  many entries the vault holds.
\<close>

theorem blank_query_matches_nothing:
  "whitespaceOnly query \<Longrightarrow>
     SearchTitles L v query = [] \<and> FindByExactTitle L v query = []"
  by (simp add: SearchTitles_def FindByExactTitle_def TrimSpace_whitespaceOnly ToLower_Nil)

theorem blank_query_witness:
  "whitespaceOnly [CHR 0x20, CHR 0x09]
     \<and> SearchTitles toy sample_vault [CHR 0x20, CHR 0x09] = []
     \<and> FindByExactTitle toy sample_vault [CHR 0x20, CHR 0x09] = []"
proof -
  have w: "whitespaceOnly [CHR 0x20, CHR 0x09]"
    by (intro whitespaceOnly.ascii whitespaceOnly.empty) (simp_all add: asciiSpace_def)
  from blank_query_matches_nothing [OF w] w show ?thesis by simp
qed

subsection \<open>The small instance meets the assumptions\<close>

lemma length_toy_tag: "length (toy_tag key nonce ad) = 16"
  by (simp add: toy_tag_def)

lemma toy_open_seal: "toy_open key nonce (toy_seal key nonce pt ad) ad = Some pt"
  by (simp add: toy_open_def toy_seal_def length_toy_tag)

lemma gcm_ok_toy: "gcm_ok toy"
  by (simp add: gcm_ok_def toy_def toy_open_seal)

lemma gcm_tag16_toy: "gcm_tag16 toy"
  by (simp add: gcm_tag16_def toy_def toy_seal_def length_toy_tag)

lemma b64_ok_toy: "b64_ok toy"
  by (simp add: b64_ok_def toy_def)

lemma toy_Create: "Create toy toy_rnd ''hunter2'' = Inr (toy_vault0, toy_key)"
  by code_simp

lemma toy_AddEntry:
  "AddEntry toy (toy_eid @ ''eeeeeeeeeeee'') 3 (Some toy_vault0) toy_key
     ''GitHub'' ''alice'' ''S3cret!'' [] [] = (Inr toy_eid, Some toy_vault1)"
  by code_simp

lemma toy_GetDecrypted: "GetDecrypted toy toy_vault1 toy_key toy_eid = Inr (toy_plain1, toy_entry1)"
  by code_simp

subsection \<open>Searching with a query that is not blank\<close>

lemma sorted_sortByModifiedDesc:
  "sorted_wrt (\<lambda>a b. CipherEntry.ModifiedAt b \<le> CipherEntry.ModifiedAt a) (sortByModifiedDesc xs)"
proof -
  have "sorted (map (\<lambda>e. - CipherEntry.ModifiedAt e) (sortByModifiedDesc xs))"
    unfolding sortByModifiedDesc_def by (rule sorted_sort_key)
  then show ?thesis by (simp add: sorted_map)
qed

lemma mset_sortByModifiedDesc: "mset (sortByModifiedDesc xs) = mset xs"
  by (simp add: sortByModifiedDesc_def)

text \<open>
  C7, as the claim states it, fails. The query \<^verbatim>\<open>"git "\<close> is not empty and the title
  \<^verbatim>\<open>GitHub\<close> does not contain it, in any case of the letters, yet \<^verbatim>\<open>SearchTitles\<close>
  returns that entry; the title \<^verbatim>\<open>" x"\<close> equals the query \<^verbatim>\<open>" x"\<close>, yet
  \<^verbatim>\<open>FindByExactTitle\<close> returns nothing. Both functions trim the query before they
  compare, and do not trim the title.
\<close>

theorem search_untrimmed_counterexample:
  "SearchTitles toy sample_vault ''git '' = [sample_entry ''id1'' ''GitHub'' 5]
   \<and> \<not> Contains (ToLower toy ''GitHub'') (ToLower toy ''git '')
   \<and> FindByExactTitle toy sample_vault '' x'' = []
   \<and> map_of (entries_of sample_vault) ''id3'' = Some (sample_entry ''id3'' '' x'' 6)
   \<and> ToLower toy (Title (sample_entry ''id3'' '' x'' 6)) = ToLower toy '' x''"
  by code_simp

text \<open>
  C7, amended. Let \<open>q\<close> be the query with the white space at its ends removed and then
  put in lower case. When \<open>q\<close> is not empty, \<^verbatim>\<open>SearchTitles\<close> returns exactly the entries
  of the vault whose title in lower case contains \<open>q\<close>, and \<^verbatim>\<open>FindByExactTitle\<close> exactly
  those whose title in lower case equals \<open>q\<close>; both results are sorted by
  \<open>ModifiedAt\<close>, latest first.
\<close>

theorem search_trimmed_query:
  "q = ToLower L (TrimSpace query) \<Longrightarrow> q \<noteq> [] \<Longrightarrow>
     mset (SearchTitles L v query)
       = filter_mset (\<lambda>e. sublist q (ToLower L (Title e))) (mset (List_entries v))
     \<and> mset (FindByExactTitle L v query)
       = filter_mset (\<lambda>e. ToLower L (Title e) = q) (mset (List_entries v))
     \<and> sorted_wrt (\<lambda>a b. CipherEntry.ModifiedAt b \<le> CipherEntry.ModifiedAt a)
         (SearchTitles L v query)
     \<and> sorted_wrt (\<lambda>a b. CipherEntry.ModifiedAt b \<le> CipherEntry.ModifiedAt a)
         (FindByExactTitle L v query)"
  by (simp add: SearchTitles_def FindByExactTitle_def List_entries_def Contains_def
      mset_sortByModifiedDesc sorted_sortByModifiedDesc)

theorem search_trimmed_query_witness:
  "''git'' = ToLower toy (TrimSpace ''Git '') \<and> ''git'' \<noteq> []
   \<and> mset (SearchTitles toy sample_vault ''Git '')
       = filter_mset (\<lambda>e. sublist ''git'' (ToLower toy (Title e)))
           (mset (List_entries sample_vault))
   \<and> SearchTitles toy sample_vault ''Git '' = [sample_entry ''id1'' ''GitHub'' 5]"
proof -
  have a: "''git'' = ToLower toy (TrimSpace ''Git '')" by code_simp
  have b: "''git'' \<noteq> []" by simp
  have c: "SearchTitles toy sample_vault ''Git '' = [sample_entry ''id1'' ''GitHub'' 5]"
    by code_simp
  from search_trimmed_query [OF a b, of sample_vault] a b c show ?thesis by simp
qed

subsection \<open>Sealing\<close>

text \<open>
  C8. \<^verbatim>\<open>EncryptAESGCM\<close> returns an error unless the key has 16, 24 or 32 bytes and the
  nonce has 12 bytes; when it succeeds, the ciphertext is what AES-GCM sealed and is 16
  bytes (the tag) longer than the plaintext. (Hypothesis on the library: sealing adds 16
  bytes.)
\<close>

theorem EncryptAESGCM_contract:
  "gcm_tag16 L \<Longrightarrow>
     (length key \<notin> {16, 24, 32} \<longrightarrow> EncryptAESGCM L key nonce pt ad = Inl KeySize)
     \<and> (length key \<in> {16, 24, 32} \<and> length nonce \<noteq> 12 \<longrightarrow>
          EncryptAESGCM L key nonce pt ad = Inl NonceSize)
     \<and> (\<forall>ct. EncryptAESGCM L key nonce pt ad = Inr ct \<longrightarrow>
          length key \<in> {16, 24, 32} \<and> length nonce = 12 \<and> length ct = length pt + 16
          \<and> ct = gcm_Seal L key nonce pt ad)"
  by (auto simp add: EncryptAESGCM_def gcm_tag16_def split: if_splits)

theorem EncryptAESGCM_contract_witness:
  "gcm_tag16 toy
   \<and> EncryptAESGCM toy ''0123456789abcdef'' ''0123456789ab'' ''secret'' ''id''
       = Inr ''secret012345id01234567''
   \<and> length ''secret012345id01234567'' = length ''secret'' + 16"
proof -
  have e: "EncryptAESGCM toy ''0123456789abcdef'' ''0123456789ab'' ''secret'' ''id''
       = Inr ''secret012345id01234567''" by code_simp
  from EncryptAESGCM_contract
         [OF gcm_tag16_toy, of "''0123456789abcdef''" "''0123456789ab''" "''secret''" "''id''"] e
  have "length ''secret012345id01234567'' = length ''secret'' + 16" by blast
  with e gcm_tag16_toy show ?thesis by blast
qed

subsection \<open>A failed update\<close>

text \<open>
  C9. When \<^verbatim>\<open>UpdateEntry\<close> returns an error, whatever the error (no such id, bad
  base64, failed authentication, or a failure while encrypting again), the vault and with
  it the map of entries is as it was before the call.
\<close>

theorem UpdateEntry_failure_keeps_vault:
  "UpdateEntry L rnd now v key eid title username password url notes = (Some e, v') \<Longrightarrow> v' = v"
  by (auto simp add: UpdateEntry_def Let_def split: sum.splits prod.splits)

theorem UpdateEntry_failure_witness:
  "UpdateEntry toy ''uuuuuuuuuuuu'' 9 toy_vault1 (replicate 32 (CHR ''X'')) toy_eid
     None None (Some ''n3w'') None None
   = (Some (Wrap ''decryption failed (authentication tag verification failed)'' GcmAuthFailed),
      toy_vault1)"
proof -
  have r:
    "UpdateEntry toy ''uuuuuuuuuuuu'' 9 toy_vault1 (replicate 32 (CHR ''X'')) toy_eid
       None None (Some ''n3w'') None None
     = (Some (Wrap ''decryption failed (authentication tag verification failed)''
                GcmAuthFailed),
        snd (UpdateEntry toy ''uuuuuuuuuuuu'' 9 toy_vault1 (replicate 32 (CHR ''X'')) toy_eid
               None None (Some ''n3w'') None None))"
    by code_simp
  from UpdateEntry_failure_keeps_vault [OF r] r show ?thesis by simp
qed

subsection \<open>The errors of Unlock\<close>





subsection \<open>Loading a vault file\<close>

lemma decMembers_skip:
  "(\<And>s. step s m = Inr s) \<Longrightarrow>
     decMembers step s (ms1 @ m # ms2) = decMembers step s (ms1 @ ms2)"
  by (induction ms1 arbitrary: s) (simp_all split: sum.splits)

lemma decVaultField_unmatched:
  "matchField L [''kdf'', ''salt'', ''keyManager'', ''verify_nonce'', ''verify_ct'', ''entries'']
     k = None \<Longrightarrow> decVaultField L v (k, x) = Inr v"
  by (simp add: decVaultField_def)

text \<open>
  C1 does not hold of \<^verbatim>\<open>Load\<close>: a member \<^verbatim>\<open>version\<close> of the file selects no field of
  \<^verbatim>\<open>Vault\<close>, so \<^verbatim>\<open>Load\<close> returns what it returns for the file without that member,
  whatever the version is. (\<^verbatim>\<open>LoadV2\<close>, for the type \<^verbatim>\<open>VaultV2\<close>, rejects every
  version but 2.)
\<close>

theorem Load_ignores_version:
  assumes "files fs path = Some data"
    and "json_Parse L data = Some (JObj (ms1 @ (''version'', x) # ms2))"
    and "matchField L
           [''kdf'', ''salt'', ''keyManager'', ''verify_nonce'', ''verify_ct'', ''entries'']
           ''version'' = None"
  shows "Load L fs path =
           (case decMembers (decVaultField L) zeroVault (ms1 @ ms2) of
              Inl e \<Rightarrow> Inl e
            | Inr v \<Rightarrow> Inr (if Entries v = None then v\<lparr>Entries := Some []\<rparr> else v))"
proof -
  have "decMembers (decVaultField L) zeroVault (ms1 @ (''version'', x) # ms2)
          = decMembers (decVaultField L) zeroVault (ms1 @ ms2)"
    by (rule decMembers_skip) (rule decVaultField_unmatched [OF assms(3)])
  with assms(1,2) show ?thesis
    by (simp add: Load_def os_ReadFile_def Unmarshal_Vault_def decStruct_def)
qed

theorem Load_ignores_version_witness:
  "files toy_fs_v99 ''vault.json'' = Some (toy_text (JObj [(''version'', JNum 99)]))
   \<and> json_Parse toy (toy_text (JObj [(''version'', JNum 99)]))
       = Some (JObj ([] @ (''version'', JNum 99) # []))
   \<and> matchField toy
        [''kdf'', ''salt'', ''keyManager'', ''verify_nonce'', ''verify_ct'', ''entries'']
        ''version'' = None
   \<and> Load toy toy_fs_v99 ''vault.json'' = Inr (zeroVault\<lparr>Entries := Some []\<rparr>)"
proof -
  have a: "files toy_fs_v99 ''vault.json'' = Some (toy_text (JObj [(''version'', JNum 99)]))"
    by (simp add: toy_fs_v99_def)
  have b: "json_Parse toy (toy_text (JObj [(''version'', JNum 99)]))
             = Some (JObj ([] @ (''version'', JNum 99) # []))"
    by code_simp
  have c: "matchField toy
        [''kdf'', ''salt'', ''keyManager'', ''verify_nonce'', ''verify_ct'', ''entries'']
        ''version'' = None"
    by code_simp
  from Load_ignores_version [OF a b c] a b c show ?thesis
    by (simp add: zeroVault_def)
qed

text \<open>The loader of the second format does make the check, and rejects the same file.\<close>

lemma LoadV2_version: "LoadV2 L fs path = Inr v \<Longrightarrow> Version v = 2"
  by (auto simp add: LoadV2_def split: sum.splits if_splits)

lemma LoadV2_rejects_99: "LoadV2 toy toy_fs_v99 ''vault.json'' = Inl (UnsupportedVersion 99)"
  by code_simp

lemma map_sum_id_Inr: "map_sum id f r = Inr y \<longleftrightarrow> (\<exists>x. r = Inr x \<and> y = f x)"
  by (cases r) auto

lemma decMembers_keyManager: "decMembers decKeyMgrField km ms = Inr km"
  by (induction ms) (simp_all add: decKeyMgrField_def)

lemma decVaultField_KeyMgr: "decVaultField L v m = Inr v' \<Longrightarrow> KeyMgr v' = KeyMgr v"
  by (auto simp add: decVaultField_def decStruct_def decMembers_keyManager map_sum_id_Inr
      split: option.splits if_splits json.splits)

lemma decMembers_Vault_KeyMgr:
  "decMembers (decVaultField L) v ms = Inr v' \<Longrightarrow> KeyMgr v' = KeyMgr v"
proof (induction ms arbitrary: v)
  case Nil
  then show ?case by simp
next
  case (Cons m ms)
  then show ?case by (auto split: sum.splits dest: decVaultField_KeyMgr)
qed

lemma Load_KeyMgr:
  "Load L fs path = Inr v \<Longrightarrow> KeyMgr v = \<lparr>encryptedMKB64 = [], encryptedMKNonce = []\<rparr>"
  by (auto simp add: Load_def Unmarshal_Vault_def decStruct_def zeroVault_def
      split: sum.splits option.splits json.splits dest: decMembers_Vault_KeyMgr)

lemma unwrap_empty_fails:
  "b64_Std_Decode L [] = Some [] \<Longrightarrow>
     \<exists>e. unwrapMasterKey L \<lparr>encryptedMKB64 = [], encryptedMKNonce = []\<rparr> pw salt = Inl e"
  by (simp add: unwrapMasterKey_def DecryptAESGCM_def split: sum.splits)

text \<open>
  C3 does not hold after \<^verbatim>\<open>Save\<close> and \<^verbatim>\<open>Load\<close>: a vault that \<^verbatim>\<open>Load\<close> returns has
  an empty \<^verbatim>\<open>keyManager\<close>, because the two fields of that struct are unexported and
  \<^verbatim>\<open>encoding/json\<close> neither writes nor reads them; \<^verbatim>\<open>Unlock\<close> of the loaded vault
  fails for every password, the right one included.
\<close>

theorem Load_loses_wrapped_key:
  assumes "Save L v0 path fs0 = (None, fs)"
    and "Load L fs path = Inr v"
    and "b64_Std_Decode L [] = Some []"
  shows "KeyMgr v = \<lparr>encryptedMKB64 = [], encryptedMKNonce = []\<rparr>
         \<and> (\<forall>pw. \<exists>e. Unlock L (Some v) pw = Inl e)"
proof -
  have k: "KeyMgr v = \<lparr>encryptedMKB64 = [], encryptedMKNonce = []\<rparr>"
    using assms(2) by (rule Load_KeyMgr)
  have u: "unwrapMasterKey L (KeyMgr v) pw salt \<noteq> Inr mk" for pw salt mk
    using unwrap_empty_fails [OF assms(3), of pw salt] k by auto
  have "\<exists>e. Unlock L (Some v) pw = Inl e" for pw
    by (auto simp add: Unlock_def u split: option.splits sum.splits)
  with k show ?thesis by blast
qed

theorem Load_loses_wrapped_key_witness:
  "fst (Save toy toy_vault1 ''v.json'' toy_fs) = None
   \<and> Load toy (snd (Save toy toy_vault1 ''v.json'' toy_fs)) ''v.json''
       = Inr (toy_vault1\<lparr>KeyMgr := \<lparr>encryptedMKB64 = [], encryptedMKNonce = []\<rparr>\<rparr>)
   \<and> Unlock toy (Some toy_vault1) ''hunter2'' = Inr toy_key
   \<and> Unlock toy (Some (toy_vault1\<lparr>KeyMgr := \<lparr>encryptedMKB64 = [], encryptedMKNonce = []\<rparr>\<rparr>))
         ''hunter2''
       = Inl (Wrap ''failed to unwrap master key''
               (Wrap ''failed to decrypt master key'' NonceSize))"
proof -
  have f: "fst (Save toy toy_vault1 ''v.json'' toy_fs) = None" by code_simp
  then have s: "Save toy toy_vault1 ''v.json'' toy_fs
                  = (None, snd (Save toy toy_vault1 ''v.json'' toy_fs))"
    by (simp add: prod_eq_iff)
  have l: "Load toy (snd (Save toy toy_vault1 ''v.json'' toy_fs)) ''v.json''
       = Inr (toy_vault1\<lparr>KeyMgr := \<lparr>encryptedMKB64 = [], encryptedMKNonce = []\<rparr>\<rparr>)"
    by code_simp
  have b: "b64_Std_Decode toy [] = Some []" by (simp add: toy_def)
  have u: "Unlock toy (Some toy_vault1) ''hunter2'' = Inr toy_key" by code_simp
  have w: "Unlock toy
             (Some (toy_vault1\<lparr>KeyMgr := \<lparr>encryptedMKB64 = [], encryptedMKNonce = []\<rparr>\<rparr>))
             ''hunter2''
           = Inl (Wrap ''failed to unwrap master key''
                   (Wrap ''failed to decrypt master key'' NonceSize))"
    by code_simp
  from Load_loses_wrapped_key [OF s l b] f l u w show ?thesis by simp
qed

subsection \<open>Decrypting what was stored\<close>

lemma Decrypt_Encrypt:
  "gcm_ok L \<Longrightarrow> EncryptAESGCM L key nonce pt ad = Inr ct \<Longrightarrow>
     DecryptAESGCM L key nonce ct ad = Inr pt"
  by (auto simp add: EncryptAESGCM_def DecryptAESGCM_def gcm_ok_def split: if_splits)

lemma entries_of_update [simp]: "entries_of (v\<lparr>Entries := Some es\<rparr>) = es"
  by (simp add: entries_of_def)

lemma GetDecrypted_stored:
  assumes "b64_ok L" and "gcm_ok L"
    and "map_of (entries_of v) eid = Some m"
    and "NonceB64 m = b64_Std_Encode L nonce" and "CipherB64 m = b64_Std_Encode L ct"
    and "deriveEntryKey L key eid = Inr entryKey"
    and "EncryptAESGCM L entryKey nonce blob eid = Inr ct"
    and "Unmarshal_PlainEntry L blob = Inr plain"
  shows "GetDecrypted L v key eid = Inr (plain, m)"
  using assms Decrypt_Encrypt [OF assms(2) assms(7)]
  by (simp add: GetDecrypted_def b64_ok_def)

text \<open>
  In memory, an entry that \<^verbatim>\<open>AddEntry\<close> stored decrypts under the same key to the
  fields it was given.
\<close>

lemma AddEntry_GetDecrypted:
  assumes "b64_ok L" and "gcm_ok L"
    and "AddEntry L rnd now (Some v) key title username password url notes = (Inr eid, vp')"
    and "plain = \<lparr>Username = username, Password = password, URL = url, Notes = notes,
                   PlainEntry.CreatedAt = now, PlainEntry.ModifiedAt = now\<rparr>"
    and "json_roundtrip L plain"
  shows "\<exists>v' e. vp' = Some v' \<and> GetDecrypted L v' key eid = Inr (plain, e)
           \<and> ID e = eid \<and> Title e = title
           \<and> CipherEntry.CreatedAt e = now \<and> CipherEntry.ModifiedAt e = now"
proof -
  from assms(3) obtain idBytes rnd1 blob nonce rnd2 entryKey ct es where
      i: "eid = b64_RawURL_Encode L idBytes"
    and m: "Marshal_PlainEntry L plain = Inr blob"
    and k: "deriveEntryKey L key eid = Inr entryKey"
    and e: "EncryptAESGCM L entryKey nonce blob eid = Inr ct"
    and v': "vp' = Some (v\<lparr>Entries := Some (AList.update eid
                    \<lparr>ID = eid, Title = title, NonceB64 = b64_Std_Encode L nonce,
                     CipherB64 = b64_Std_Encode L ct,
                     CipherEntry.CreatedAt = now, CipherEntry.ModifiedAt = now\<rparr> es)\<rparr>)"
    unfolding AddEntry_def assms(4)
    by (auto simp add: Let_def split: sum.splits prod.splits option.splits)
  let ?e = "\<lparr>ID = eid, Title = title, NonceB64 = b64_Std_Encode L nonce,
             CipherB64 = b64_Std_Encode L ct,
             CipherEntry.CreatedAt = now, CipherEntry.ModifiedAt = now\<rparr>"
  let ?v = "v\<lparr>Entries := Some (AList.update eid ?e es)\<rparr>"
  from m assms(5) have u: "Unmarshal_PlainEntry L blob = Inr plain"
    by (simp add: json_roundtrip_def)
  have l: "map_of (entries_of ?v) eid = Some ?e"
    by (simp add: update_conv')
  have "GetDecrypted L ?v key eid = Inr (plain, ?e)"
    by (rule GetDecrypted_stored [OF assms(1,2) l _ _ k e u]) simp_all
  with v' show ?thesis by auto
qed

subsection \<open>A successful update\<close>

text \<open>
  What a successful \<^verbatim>\<open>UpdateEntry\<close> did, read off its code: the record it marshalled, the
  nonce it drew, the key it derived, the ciphertext it sealed and the vault it left.
\<close>

lemma UpdateEntry_success:
  assumes "GetDecrypted L v key eid = Inr (plain0, meta0)"
    and "UpdateEntry L rnd now v key eid title username password url notes = (None, v')"
  shows "\<exists>blob nonce rnd1 entryKey ct.
           Marshal_PlainEntry L
             \<lparr>Username = (case username of None \<Rightarrow> Username plain0 | Some x \<Rightarrow> x),
              Password = (case password of None \<Rightarrow> Password plain0 | Some x \<Rightarrow> x),
              URL = (case url of None \<Rightarrow> URL plain0 | Some x \<Rightarrow> x),
              Notes = (case notes of None \<Rightarrow> Notes plain0 | Some x \<Rightarrow> x),
              PlainEntry.CreatedAt = PlainEntry.CreatedAt plain0,
              PlainEntry.ModifiedAt = now\<rparr> = Inr blob
         \<and> GenerateNonce 12 rnd = Inr (nonce, rnd1)
         \<and> deriveEntryKey L key eid = Inr entryKey
         \<and> EncryptAESGCM L entryKey nonce blob eid = Inr ct
         \<and> v' = v\<lparr>Entries := Some (AList.update eid
                  (meta0\<lparr>Title := (case title of None \<Rightarrow> Title meta0 | Some x \<Rightarrow> x),
                         CipherEntry.ModifiedAt := now,
                         NonceB64 := b64_Std_Encode L nonce,
                         CipherB64 := b64_Std_Encode L ct\<rparr>) (entries_of v))\<rparr>"
proof -
  define plainU where "plainU =
     (let plain1 = (case username of None \<Rightarrow> plain0 | Some x \<Rightarrow> plain0\<lparr>Username := x\<rparr>);
          plain2 = (case password of None \<Rightarrow> plain1 | Some x \<Rightarrow> plain1\<lparr>Password := x\<rparr>);
          plain3 = (case url of None \<Rightarrow> plain2 | Some x \<Rightarrow> plain2\<lparr>URL := x\<rparr>);
          plain4 = (case notes of None \<Rightarrow> plain3 | Some x \<Rightarrow> plain3\<lparr>Notes := x\<rparr>)
      in plain4\<lparr>PlainEntry.ModifiedAt := now\<rparr>)"
  have pu: "plainU =
             \<lparr>Username = (case username of None \<Rightarrow> Username plain0 | Some x \<Rightarrow> x),
              Password = (case password of None \<Rightarrow> Password plain0 | Some x \<Rightarrow> x),
              URL = (case url of None \<Rightarrow> URL plain0 | Some x \<Rightarrow> x),
              Notes = (case notes of None \<Rightarrow> Notes plain0 | Some x \<Rightarrow> x),
              PlainEntry.CreatedAt = PlainEntry.CreatedAt plain0,
              PlainEntry.ModifiedAt = now\<rparr>"
    unfolding plainU_def by (simp add: Let_def split: option.splits)
  define metaU where "metaU =
     ((case title of None \<Rightarrow> meta0 | Some x \<Rightarrow> meta0\<lparr>Title := x\<rparr>)\<lparr>CipherEntry.ModifiedAt := now\<rparr>)"
  have mu: "metaU = meta0\<lparr>Title := (case title of None \<Rightarrow> Title meta0 | Some x \<Rightarrow> x),
                         CipherEntry.ModifiedAt := now\<rparr>"
    unfolding metaU_def by (simp split: option.splits)
  from assms obtain blob nonce rnd1 entryKey ct where
      m: "Marshal_PlainEntry L plainU = Inr blob"
    and n: "GenerateNonce 12 rnd = Inr (nonce, rnd1)"
    and k: "deriveEntryKey L key eid = Inr entryKey"
    and e: "EncryptAESGCM L entryKey nonce blob eid = Inr ct"
    and v': "v' = v\<lparr>Entries := Some (AList.update eid
                (metaU\<lparr>NonceB64 := b64_Std_Encode L nonce,
                        CipherB64 := b64_Std_Encode L ct\<rparr>) (entries_of v))\<rparr>"
    unfolding UpdateEntry_def plainU_def metaU_def
    by (auto simp add: Let_def split: sum.splits prod.splits)
  from m n k e v' show ?thesis unfolding pu mu by blast
qed

lemma GenerateNonce_take:
  "GenerateNonce n rnd = Inr (b, rnd') \<Longrightarrow> b = take n rnd \<and> rnd' = drop n rnd"
  by (auto simp add: GenerateNonce_def rand_Read_def split: if_splits)

text \<open>
  C6. Let the entry decrypt to \<open>plain0\<close> with the wrapper \<open>meta0\<close>, and let \<^verbatim>\<open>UpdateEntry\<close>
  succeed. The \<^verbatim>\<open>PlainEntry\<close> that it marshals and seals, under the key of the entry, the
  next 12 random bytes as nonce and the id as additional data, is the record in which
  every field given as nil keeps its value of \<open>plain0\<close> and every other field has the
  value given, with \<open>CreatedAt\<close> that of \<open>plain0\<close> and \<open>ModifiedAt\<close> the new time. The wrapper
  stored under the id holds that ciphertext and nonce, keeps its id and \<open>CreatedAt\<close>, has
  the old title if the title is nil and the given title otherwise, and has the same new
  time as \<open>ModifiedAt\<close>. No other entry changes.
\<close>

theorem UpdateEntry_partial:
  assumes "GetDecrypted L v key eid = Inr (plain0, meta0)"
    and "UpdateEntry L rnd now v key eid title username password url notes = (None, v')"
  shows "\<exists>blob entryKey ct meta'.
           Marshal_PlainEntry L
             \<lparr>Username = (case username of None \<Rightarrow> Username plain0 | Some x \<Rightarrow> x),
              Password = (case password of None \<Rightarrow> Password plain0 | Some x \<Rightarrow> x),
              URL = (case url of None \<Rightarrow> URL plain0 | Some x \<Rightarrow> x),
              Notes = (case notes of None \<Rightarrow> Notes plain0 | Some x \<Rightarrow> x),
              PlainEntry.CreatedAt = PlainEntry.CreatedAt plain0,
              PlainEntry.ModifiedAt = now\<rparr> = Inr blob
         \<and> deriveEntryKey L key eid = Inr entryKey
         \<and> EncryptAESGCM L entryKey (take 12 rnd) blob eid = Inr ct
         \<and> map_of (entries_of v') eid = Some meta'
         \<and> CipherB64 meta' = b64_Std_Encode L ct
         \<and> NonceB64 meta' = b64_Std_Encode L (take 12 rnd)
         \<and> ID meta' = ID meta0
         \<and> Title meta' = (case title of None \<Rightarrow> Title meta0 | Some x \<Rightarrow> x)
         \<and> CipherEntry.CreatedAt meta' = CipherEntry.CreatedAt meta0
         \<and> CipherEntry.ModifiedAt meta' = now
         \<and> (\<forall>k. k \<noteq> eid \<longrightarrow> map_of (entries_of v') k = map_of (entries_of v) k)"
proof -
  let ?p = "\<lparr>Username = (case username of None \<Rightarrow> Username plain0 | Some x \<Rightarrow> x),
              Password = (case password of None \<Rightarrow> Password plain0 | Some x \<Rightarrow> x),
              URL = (case url of None \<Rightarrow> URL plain0 | Some x \<Rightarrow> x),
              Notes = (case notes of None \<Rightarrow> Notes plain0 | Some x \<Rightarrow> x),
              PlainEntry.CreatedAt = PlainEntry.CreatedAt plain0,
              PlainEntry.ModifiedAt = now\<rparr>"
  from UpdateEntry_success [OF assms] obtain blob nonce rnd1 entryKey ct where
      m: "Marshal_PlainEntry L ?p = Inr blob"
    and n: "GenerateNonce 12 rnd = Inr (nonce, rnd1)"
    and k: "deriveEntryKey L key eid = Inr entryKey"
    and e: "EncryptAESGCM L entryKey nonce blob eid = Inr ct"
    and v': "v' = v\<lparr>Entries := Some (AList.update eid
                  (meta0\<lparr>Title := (case title of None \<Rightarrow> Title meta0 | Some x \<Rightarrow> x),
                         CipherEntry.ModifiedAt := now,
                         NonceB64 := b64_Std_Encode L nonce,
                         CipherB64 := b64_Std_Encode L ct\<rparr>) (entries_of v))\<rparr>"
    by blast
  from n have nn: "nonce = take 12 rnd" by (simp add: GenerateNonce_take)
  let ?m = "meta0\<lparr>Title := (case title of None \<Rightarrow> Title meta0 | Some x \<Rightarrow> x),
                  CipherEntry.ModifiedAt := now,
                  NonceB64 := b64_Std_Encode L (take 12 rnd),
                  CipherB64 := b64_Std_Encode L ct\<rparr>"
  have l: "map_of (entries_of v') eid = Some ?m"
    by (simp add: v' nn update_conv')
  have f: "\<forall>k. k \<noteq> eid \<longrightarrow> map_of (entries_of v') k = map_of (entries_of v) k"
    by (simp add: v' update_conv')
  show ?thesis
    apply (rule exI [of _ blob], rule exI [of _ entryKey], rule exI [of _ ct], rule exI [of _ ?m])
    using m k e [unfolded nn] l f apply simp
    done
qed

theorem UpdateEntry_partial_witness:
  "GetDecrypted toy toy_vault1 toy_key toy_eid = Inr (toy_plain1, toy_entry1)
   \<and> fst (UpdateEntry toy ''uuuuuuuuuuuu'' 9 toy_vault1 toy_key toy_eid
            None None (Some ''n3w'') None (Some ''note'')) = None
   \<and> (\<exists>blob entryKey meta'.
         Marshal_PlainEntry toy toy_plain2 = Inr blob
         \<and> deriveEntryKey toy toy_key toy_eid = Inr entryKey
         \<and> EncryptAESGCM toy entryKey ''uuuuuuuuuuuu'' blob toy_eid = Inr (CipherB64 meta')
         \<and> map_of (entries_of (snd (UpdateEntry toy ''uuuuuuuuuuuu'' 9 toy_vault1 toy_key toy_eid
                   None None (Some ''n3w'') None (Some ''note'')))) toy_eid = Some meta'
         \<and> Title meta' = ''GitHub'' \<and> CipherEntry.CreatedAt meta' = 3
         \<and> CipherEntry.ModifiedAt meta' = 9)
   \<and> map_of (entries_of (snd (UpdateEntry toy ''uuuuuuuuuuuu'' 9 toy_vault1 toy_key toy_eid
                   None None (Some ''n3w'') None (Some ''note'')))) toy_eid = Some toy_entry2"
proof -
  have g: "GetDecrypted toy toy_vault1 toy_key toy_eid = Inr (toy_plain1, toy_entry1)"
    by code_simp
  have f: "fst (UpdateEntry toy ''uuuuuuuuuuuu'' 9 toy_vault1 toy_key toy_eid
            None None (Some ''n3w'') None (Some ''note'')) = None"
    by code_simp
  then have u: "UpdateEntry toy ''uuuuuuuuuuuu'' 9 toy_vault1 toy_key toy_eid
                  None None (Some ''n3w'') None (Some ''note'')
                = (None, snd (UpdateEntry toy ''uuuuuuuuuuuu'' 9 toy_vault1 toy_key toy_eid
                                None None (Some ''n3w'') None (Some ''note'')))"
    by (simp add: prod_eq_iff)
  have s: "map_of (entries_of (snd (UpdateEntry toy ''uuuuuuuuuuuu'' 9 toy_vault1 toy_key toy_eid
                   None None (Some ''n3w'') None (Some ''note'')))) toy_eid = Some toy_entry2"
    by code_simp
  have b: "b64_Std_Encode toy x = x" for x by (simp add: toy_def)
  have p: "\<lparr>Username = (case None of None \<Rightarrow> Username toy_plain1 | Some x \<Rightarrow> x),
              Password = (case Some ''n3w'' of None \<Rightarrow> Password toy_plain1 | Some x \<Rightarrow> x),
              URL = (case None of None \<Rightarrow> URL toy_plain1 | Some x \<Rightarrow> x),
              Notes = (case Some ''note'' of None \<Rightarrow> Notes toy_plain1 | Some x \<Rightarrow> x),
              PlainEntry.CreatedAt = PlainEntry.CreatedAt toy_plain1,
              PlainEntry.ModifiedAt = 9\<rparr> = toy_plain2"
    by (simp add: toy_plain2_def toy_plain1_def)
  have t: "Title toy_entry1 = ''GitHub''" "CipherEntry.CreatedAt toy_entry1 = 3"
    by (simp_all add: toy_entry1_def)
  from UpdateEntry_partial [OF g u, unfolded p b] t
  have "\<exists>blob entryKey meta'.
         Marshal_PlainEntry toy toy_plain2 = Inr blob
         \<and> deriveEntryKey toy toy_key toy_eid = Inr entryKey
         \<and> EncryptAESGCM toy entryKey ''uuuuuuuuuuuu'' blob toy_eid = Inr (CipherB64 meta')
         \<and> map_of (entries_of (snd (UpdateEntry toy ''uuuuuuuuuuuu'' 9 toy_vault1 toy_key toy_eid
                   None None (Some ''n3w'') None (Some ''note'')))) toy_eid = Some meta'
         \<and> Title meta' = ''GitHub'' \<and> CipherEntry.CreatedAt meta' = 3
         \<and> CipherEntry.ModifiedAt meta' = 9"
    by auto
  with g f s show ?thesis by blast
qed

text \<open>
  Where base64 and AES-GCM invert and the JSON text of the new record decodes to it,
  the updated entry decrypts to that record.
\<close>

lemma UpdateEntry_GetDecrypted:
  assumes "b64_ok L" and "gcm_ok L"
    and "GetDecrypted L v key eid = Inr (plain0, meta0)"
    and "UpdateEntry L rnd now v key eid title username password url notes = (None, v')"
    and "plain' = \<lparr>Username = (case username of None \<Rightarrow> Username plain0 | Some x \<Rightarrow> x),
                   Password = (case password of None \<Rightarrow> Password plain0 | Some x \<Rightarrow> x),
                   URL = (case url of None \<Rightarrow> URL plain0 | Some x \<Rightarrow> x),
                   Notes = (case notes of None \<Rightarrow> Notes plain0 | Some x \<Rightarrow> x),
                   PlainEntry.CreatedAt = PlainEntry.CreatedAt plain0,
                   PlainEntry.ModifiedAt = now\<rparr>"
    and "json_roundtrip L plain'"
  shows "\<exists>meta'. GetDecrypted L v' key eid = Inr (plain', meta')"
proof -
  from UpdateEntry_success [OF assms(3,4)] obtain blob nonce rnd1 entryKey ct where
      m: "Marshal_PlainEntry L plain' = Inr blob"
    and k: "deriveEntryKey L key eid = Inr entryKey"
    and e: "EncryptAESGCM L entryKey nonce blob eid = Inr ct"
    and v': "v' = v\<lparr>Entries := Some (AList.update eid
                  (meta0\<lparr>Title := (case title of None \<Rightarrow> Title meta0 | Some x \<Rightarrow> x),
                         CipherEntry.ModifiedAt := now,
                         NonceB64 := b64_Std_Encode L nonce,
                         CipherB64 := b64_Std_Encode L ct\<rparr>) (entries_of v))\<rparr>"
    unfolding assms(5) by blast
  let ?m = "meta0\<lparr>Title := (case title of None \<Rightarrow> Title meta0 | Some x \<Rightarrow> x),
                  CipherEntry.ModifiedAt := now,
                  NonceB64 := b64_Std_Encode L nonce,
                  CipherB64 := b64_Std_Encode L ct\<rparr>"
  from m assms(6) have u: "Unmarshal_PlainEntry L blob = Inr plain'"
    by (simp add: json_roundtrip_def)
  have l: "map_of (entries_of v') eid = Some ?m"
    by (simp add: v' update_conv')
  have "GetDecrypted L v' key eid = Inr (plain', ?m)"
    by (rule GetDecrypted_stored [OF assms(1,2) l _ _ k e u]) simp_all
  then show ?thesis by blast
qed

subsection \<open>Changing the password\<close>

lemma Encrypt_is_Seal:
  "EncryptAESGCM L key nonce pt ad = Inr ct \<Longrightarrow> ct = gcm_Seal L key nonce pt ad"
  by (auto simp add: EncryptAESGCM_def split: if_splits)

lemma unwrap_wrap:
  assumes "b64_ok L" and "gcm_ok L"
    and "wrapMasterKey L rnd masterKey password salt = Inr (km, rnd')"
  shows "unwrapMasterKey L km password salt = Inr masterKey"
proof -
  from assms(3) obtain wrappingKey nonce encryptedMK where
      d: "deriveKey L password salt = Inr wrappingKey"
    and e: "EncryptAESGCM L wrappingKey nonce masterKey [] = Inr encryptedMK"
    and km: "km = \<lparr>encryptedMKB64 = b64_Std_Encode L encryptedMK,
                   encryptedMKNonce = b64_Std_Encode L nonce\<rparr>"
    by (auto simp add: wrapMasterKey_def split: sum.splits prod.splits)
  from assms(1) d km Decrypt_Encrypt [OF assms(2) e] show ?thesis
    by (simp add: unwrapMasterKey_def b64_ok_def)
qed

lemma randomBytes_take: "randomBytes n rnd = Inr (b, rnd') \<Longrightarrow> b = take n rnd \<and> rnd' = drop n rnd"
  by (auto simp add: randomBytes_def rand_Read_def split: if_splits)

lemma Unlock_Entries: "Unlock L (Some (v\<lparr>Entries := es\<rparr>)) pw = Unlock L (Some v) pw"
  by (simp add: Unlock_def split: option.splits sum.splits)

lemma GetDecrypted_Entries:
  "Entries v1 = Entries v2 \<Longrightarrow> GetDecrypted L v1 key eid = GetDecrypted L v2 key eid"
  by (simp add: GetDecrypted_def entries_of_def)

lemma unwrap_same_key:
  "deriveKey L p salt = deriveKey L p' salt \<Longrightarrow>
     unwrapMasterKey L km p salt = unwrapMasterKey L km p' salt"
  by (simp add: unwrapMasterKey_def)

text \<open>
  What a successful \<^verbatim>\<open>CreateWithExistingKey\<close> did: the salt is the next 32 random bytes,
  the master key is wrapped, and the marker sealed, under the key derived from the new
  password and that salt, and the map of entries is empty.
\<close>

lemma CreateWithExistingKey_parts:
  assumes "CreateWithExistingKey L rnd newPassword mk = Inr nv"
  shows "\<exists>key km rnd2 nonce ct.
           deriveKey L newPassword (take 32 rnd) = Inr key
         \<and> wrapMasterKey L (drop 32 rnd) mk newPassword (take 32 rnd) = Inr (km, rnd2)
         \<and> EncryptAESGCM L key nonce verifyMsg [] = Inr ct
         \<and> nv = \<lparr>KDF = defaultKDF, SaltB64 = b64_Std_Encode L (take 32 rnd), KeyMgr = km,
                   VerifyNnc = b64_Std_Encode L nonce, VerifyCt = b64_Std_Encode L ct,
                   Entries = Some []\<rparr>"
proof -
  from assms obtain salt rnd1 key km rnd2 nonce rnd3 ct where
      r: "randomBytes 32 rnd = Inr (salt, rnd1)"
    and d: "deriveKey L newPassword salt = Inr key"
    and w: "wrapMasterKey L rnd1 mk newPassword salt = Inr (km, rnd2)"
    and e: "EncryptAESGCM L key nonce verifyMsg [] = Inr ct"
    and nv: "nv = \<lparr>KDF = defaultKDF, SaltB64 = b64_Std_Encode L salt, KeyMgr = km,
                   VerifyNnc = b64_Std_Encode L nonce, VerifyCt = b64_Std_Encode L ct,
                   Entries = Some []\<rparr>"
    by (auto simp add: CreateWithExistingKey_def split: sum.splits prod.splits)
  from r have "salt = take 32 rnd" "rnd1 = drop 32 rnd" by (simp_all add: randomBytes_take)
  with d w e nv show ?thesis by blast
qed

text \<open>
  \<^verbatim>\<open>Unlock\<close> of the new vault, with any entries put into it, returns the master key that
  was passed to \<^verbatim>\<open>CreateWithExistingKey\<close> for every password from which scrypt derives,
  under the new salt, the key that it derives from the new password.
\<close>

lemma Unlock_same_key:
  assumes "b64_ok L" and "gcm_ok L"
    and "CreateWithExistingKey L rnd newPassword mk = Inr nv"
    and "deriveKey L p (take 32 rnd) = deriveKey L newPassword (take 32 rnd)"
  shows "Unlock L (Some (nv\<lparr>Entries := es\<rparr>)) p = Inr mk"
proof -
  from CreateWithExistingKey_parts [OF assms(3)] obtain key km rnd2 nonce ct where
      d: "deriveKey L newPassword (take 32 rnd) = Inr key"
    and w: "wrapMasterKey L (drop 32 rnd) mk newPassword (take 32 rnd) = Inr (km, rnd2)"
    and e: "EncryptAESGCM L key nonce verifyMsg [] = Inr ct"
    and nv: "nv = \<lparr>KDF = defaultKDF, SaltB64 = b64_Std_Encode L (take 32 rnd), KeyMgr = km,
                   VerifyNnc = b64_Std_Encode L nonce, VerifyCt = b64_Std_Encode L ct,
                   Entries = Some []\<rparr>"
    by blast
  have dec: "b64_Std_Decode L (b64_Std_Encode L x) = Some x" for x
    using assms(1) by (simp add: b64_ok_def)
  from assms(4) d have d': "deriveKey L p (take 32 rnd) = Inr key" by simp
  have "unwrapMasterKey L km p (take 32 rnd) = Inr mk"
    using unwrap_same_key [OF assms(4)] unwrap_wrap [OF assms(1,2) w] by simp
  with d' Decrypt_Encrypt [OF assms(2) e] have "Unlock L (Some nv) p = Inr mk"
    by (simp add: Unlock_def nv dec)
  then show ?thesis by (simp add: Unlock_Entries)
qed

text \<open>
  Changing the password as the application does it: the new vault is made from the new
  password and the master key, and the entries of the old vault \<open>v\<close> are put into it.
  Its salt is fresh, \<^verbatim>\<open>Unlock\<close> with the new password returns the same master key, and
  every entry decrypts under that key as it did in the old vault.
\<close>

lemma CreateWithExistingKey_rewraps:
  assumes "b64_ok L" and "gcm_ok L"
    and "CreateWithExistingKey L rnd newPassword mk = Inr nv"
  shows "SaltB64 (nv\<lparr>Entries := Entries v\<rparr>) = b64_Std_Encode L (take 32 rnd)
         \<and> Unlock L (Some (nv\<lparr>Entries := Entries v\<rparr>)) newPassword = Inr mk
         \<and> GetDecrypted L (nv\<lparr>Entries := Entries v\<rparr>) mk eid = GetDecrypted L v mk eid"
proof -
  from CreateWithExistingKey_parts [OF assms(3)]
  have "SaltB64 (nv\<lparr>Entries := Entries v\<rparr>) = b64_Std_Encode L (take 32 rnd)"
    by auto
  moreover have "Unlock L (Some (nv\<lparr>Entries := Entries v\<rparr>)) newPassword = Inr mk"
    by (rule Unlock_same_key [OF assms refl])
  moreover have "GetDecrypted L (nv\<lparr>Entries := Entries v\<rparr>) mk eid = GetDecrypted L v mk eid"
    by (rule GetDecrypted_Entries) simp
  ultimately show ?thesis by simp
qed

text \<open>
  A password unlocks the new vault only if the marker, sealed under the key derived
  from the new password, opens to the marker under the key derived from that password.
  Whether the old password does is thus a question about scrypt and AES-GCM alone.
\<close>

lemma Unlock_opens_marker:
  assumes "b64_ok L"
    and "CreateWithExistingKey L rnd newPassword mk = Inr nv"
    and "Unlock L (Some (nv\<lparr>Entries := es\<rparr>)) p = Inr k"
  shows "\<exists>key' key nonce.
           deriveKey L p (take 32 rnd) = Inr key'
         \<and> deriveKey L newPassword (take 32 rnd) = Inr key
         \<and> DecryptAESGCM L key' nonce (gcm_Seal L key nonce verifyMsg []) [] = Inr verifyMsg"
proof -
  from CreateWithExistingKey_parts [OF assms(2)] obtain key km rnd2 nonce ct where
      d: "deriveKey L newPassword (take 32 rnd) = Inr key"
    and e: "EncryptAESGCM L key nonce verifyMsg [] = Inr ct"
    and nv: "nv = \<lparr>KDF = defaultKDF, SaltB64 = b64_Std_Encode L (take 32 rnd), KeyMgr = km,
                   VerifyNnc = b64_Std_Encode L nonce, VerifyCt = b64_Std_Encode L ct,
                   Entries = Some []\<rparr>"
    by blast
  have dec: "b64_Std_Decode L (b64_Std_Encode L x) = Some x" for x
    using assms(1) by (simp add: b64_ok_def)
  from assms(3) have "Unlock L (Some nv) p = Inr k" by (simp add: Unlock_Entries)
  then have "\<exists>key'. deriveKey L p (take 32 rnd) = Inr key'
             \<and> DecryptAESGCM L key' nonce (gcm_Seal L key nonce verifyMsg []) [] = Inr verifyMsg"
    using Encrypt_is_Seal [OF e]
    by (auto simp add: Unlock_def nv dec split: sum.splits if_splits)
  with d show ?thesis by blast
qed

text \<open>On the small instance:\<close>

lemma toy_change_password:
  "CreateWithExistingKey toy toy_rnd2 ''n3wpass'' toy_key = Inr (toy_vault2 ''n3wpas'')
   \<and> Unlock toy (Some (toy_vault2 ''n3wpas''\<lparr>Entries := Entries toy_vault1\<rparr>)) ''n3wpass''
       = Inr toy_key
   \<and> GetDecrypted toy (toy_vault2 ''n3wpas''\<lparr>Entries := Entries toy_vault1\<rparr>) toy_key toy_eid
       = Inr (toy_plain1, toy_entry1)
   \<and> Unlock toy (Some (toy_vault2 ''n3wpas''\<lparr>Entries := Entries toy_vault1\<rparr>)) ''hunter2''
       = Inl WrongMasterPassword"
  by code_simp

subsection \<open>What saving and loading keep\<close>

text \<open>
  Apart from the key manager, \<^verbatim>\<open>Load\<close> returns the vault that \<^verbatim>\<open>Save\<close> wrote, with
  the entries in the order of their keys, and every entry decrypts as before under a
  master key that is still at hand.
\<close>

lemma find_exact: "n \<in> set names \<Longrightarrow> find (\<lambda>x. x = n) names = Some n"
  by (induction names) auto

lemma matchField_exact: "n \<in> set names \<Longrightarrow> matchField L names n = Some n"
  by (simp add: matchField_def find_exact)

lemma decCipherEntry_json:
  assumes "time_ok L" and "CipherEntry_json L e = Inr je"
  shows "decStruct (decCipherField L) je zeroCipherEntry = Inr e"
proof -
  from assms(2) obtain c m where
      c: "time_MarshalJSON L (CipherEntry.CreatedAt e) = Some c"
    and m: "time_MarshalJSON L (CipherEntry.ModifiedAt e) = Some m"
    and je: "je = JObj [(''id'', JStr (ID e)), (''title'', JStr (Title e)),
                     (''nonce'', JStr (NonceB64 e)), (''ciphertext'', JStr (CipherB64 e)),
                     (''createdAt'', JStr c), (''modifiedAt'', JStr m)]"
    by (auto simp add: CipherEntry_json_def split: option.splits)
  from assms(1) c m have
      uc: "time_UnmarshalJSON L c = Some (CipherEntry.CreatedAt e)"
    and um: "time_UnmarshalJSON L m = Some (CipherEntry.ModifiedAt e)"
    by (auto simp add: time_ok_def)
  show ?thesis
    unfolding je
    by (simp add: decStruct_def decCipherField_def matchField_exact decString_def decTime_def
        uc um zeroCipherEntry_def)
qed

lemma update_fresh: "k \<notin> fst ` set al \<Longrightarrow> AList.update k v al = al @ [(k, v)]"
  by (induction al) auto

lemma decMembers_entries:
  assumes "time_ok L"
  shows "entries_json L es = Inr js \<Longrightarrow> distinct (map fst es) \<Longrightarrow>
         fst ` set es \<inter> fst ` set acc = {} \<Longrightarrow>
         decMembers
           (\<lambda>es m. map_sum id (\<lambda>e. AList.update (fst m) e es)
                      (decStruct (decCipherField L) (snd m) zeroCipherEntry))
           acc js = Inr (acc @ es)"
proof (induction es arbitrary: js acc)
  case Nil
  then show ?case by simp
next
  case (Cons p es)
  from Cons.prems(1) obtain j js' where
      j: "CipherEntry_json L (snd p) = Inr j"
    and js': "entries_json L es = Inr js'"
    and js: "js = (fst p, j) # js'"
    by (auto split: sum.splits)
  have d: "decStruct (decCipherField L) j zeroCipherEntry = Inr (snd p)"
    by (rule decCipherEntry_json [OF assms j])
  from Cons.prems(3) have f: "fst p \<notin> fst ` set acc" by auto
  have i: "fst ` set es \<inter> fst ` set (acc @ [p]) = {}"
    using Cons.prems(2,3) by auto
  from Cons.IH [OF js' _ i] Cons.prems(2) show ?case
    by (simp add: js d update_fresh [OF f])
qed

lemma decVault_json:
  assumes "time_ok L" and "kdf_ints (KDF v)" and "distinct (map fst (entries_of v))"
    and "Vault_json L v = Inr j"
  shows "decStruct (decVaultField L) j zeroVault
           = Inr (v\<lparr>KeyMgr := \<lparr>encryptedMKB64 = [], encryptedMKNonce = []\<rparr>,
                   Entries := (case Entries v of None \<Rightarrow> None
                               | Some es \<Rightarrow> Some (sort_key fst es))\<rparr>)"
proof -
  from assms(4) obtain ej where
      ej: "(case Entries v of None \<Rightarrow> Inr JNull
            | Some es \<Rightarrow> map_sum id JObj (entries_json L (sort_key fst es))) = Inr ej"
    and j: "j = JObj [(''kdf'', JObj [(''N'', JNum (KDF_N (KDF v))), (''r'', JNum (KDF_R (KDF v))),
                                    (''p'', JNum (KDF_P (KDF v))),
                                    (''keyLen'', JNum (KDF_L (KDF v)))]),
                     (''salt'', JStr (SaltB64 v)),
                     (''keyManager'', keyManager_json (KeyMgr v)),
                     (''verify_nonce'', JStr (VerifyNnc v)),
                     (''verify_ct'', JStr (VerifyCt v)),
                     (''entries'', ej)]"
    by (auto simp add: Vault_json_def split: sum.splits)
  have k: "decStruct (decKDFField L)
             (JObj [(''N'', JNum (KDF_N (KDF v))), (''r'', JNum (KDF_R (KDF v))),
                    (''p'', JNum (KDF_P (KDF v))), (''keyLen'', JNum (KDF_L (KDF v)))])
             \<lparr>KDF_N = 0, KDF_R = 0, KDF_P = 0, KDF_L = 0\<rparr> = Inr (KDF v)"
    using assms(2)
    by (simp add: decStruct_def decKDFField_def matchField_exact decInt_def kdf_ints_def)
  have e: "decEntries L ej None
             = Inr (case Entries v of None \<Rightarrow> None | Some es \<Rightarrow> Some (sort_key fst es))"
  proof (cases "Entries v")
    case None
    with ej show ?thesis by (auto simp add: decEntries_def)
  next
    case (Some es)
    with ej obtain js where js: "entries_json L (sort_key fst es) = Inr js" and "ej = JObj js"
      by (auto simp add: map_sum_id_Inr)
    moreover from assms(3) Some have "distinct (map fst (sort_key fst es))"
      by (simp add: entries_of_def distinct_map inj_on_def)
    ultimately show ?thesis
      using decMembers_entries [OF assms(1) js, of "[]"] Some
      by (simp add: decEntries_def)
  qed
  have top: "decStruct (decVaultField L) (JObj ms) z = decMembers (decVaultField L) z ms"
    for ms z by (simp add: decStruct_def)
  have km: "decStruct decKeyMgrField (JObj []) x = Inr x" for x
    by (simp add: decStruct_def)
  show ?thesis
    unfolding j top
    by (simp add: decVaultField_def matchField_exact decString_def k e km
        zeroVault_def keyManager_json_def)
qed

lemma Load_Save:
  assumes "time_ok L" and "kdf_ints (KDF v)" and "wf_entries v"
    and "Save L v path fs = (None, fs')"
    and "\<And>j. Vault_json L v = Inr j \<Longrightarrow> json_Parse L (json_TextIndent L j) = Some j"
  shows "Load L fs' path
           = Inr (v\<lparr>KeyMgr := \<lparr>encryptedMKB64 = [], encryptedMKNonce = []\<rparr>,
                   Entries := Some (sort_key fst (entries_of v))\<rparr>)"
proof -
  from assms(4) obtain j where
      j: "Vault_json L v = Inr j"
    and fs': "fs' = fs\<lparr>files := (files fs)(path \<mapsto> json_TextIndent L j)\<rparr>"
    by (auto simp add: Save_def os_WriteFile_def split: sum.splits if_splits)
  from assms(3) have d: "distinct (map fst (entries_of v))"
    by (simp add: wf_entries_def)
  have "Unmarshal_Vault L (json_TextIndent L j)
          = Inr (v\<lparr>KeyMgr := \<lparr>encryptedMKB64 = [], encryptedMKNonce = []\<rparr>,
                  Entries := (case Entries v of None \<Rightarrow> None
                              | Some es \<Rightarrow> Some (sort_key fst es))\<rparr>)"
    by (simp add: Unmarshal_Vault_def assms(5) [OF j] decVault_json [OF assms(1,2) d j])
  then show ?thesis
    by (cases "Entries v") (simp_all add: Load_def os_ReadFile_def fs' entries_of_def)
qed

lemma map_of_sort_key:
  "distinct (map fst es) \<Longrightarrow> map_of (sort_key fst es) = map_of es"
  by (subst map_of_inject_set) (simp_all add: distinct_map inj_on_def)

lemma GetDecrypted_sorted:
  "wf_entries v \<Longrightarrow>
     GetDecrypted L (v\<lparr>KeyMgr := km, Entries := Some (sort_key fst (entries_of v))\<rparr>) key eid
       = GetDecrypted L v key eid"
  by (simp add: GetDecrypted_def wf_entries_def map_of_sort_key)

subsection \<open>An entry under another id\<close>

text \<open>
  \<^verbatim>\<open>GetDecrypted\<close> derives the key from the id it is asked for and passes that id as
  additional data, whatever id the stored entry carries: an entry moved to the slot of
  another id is returned only if AES-GCM accepts its ciphertext under that key and that
  additional data. Whether it does is a matter of the cipher; the small instance does not.
\<close>

lemma GetDecrypted_relocated:
  assumes "b64_ok L"
    and "map_of (entries_of v) id2 = Some e"
    and "NonceB64 e = b64_Std_Encode L nonce"
    and "CipherB64 e = b64_Std_Encode L ct"
    and "deriveEntryKey L mk id2 = Inr key2"
  shows "GetDecrypted L v mk id2 =
           (case DecryptAESGCM L key2 nonce ct id2 of
              Inl err \<Rightarrow> Inl err
            | Inr pt \<Rightarrow>
                (case Unmarshal_PlainEntry L pt of
                   Inl err \<Rightarrow> Inl err
                 | Inr plain \<Rightarrow> Inr (plain, e)))"
  using assms by (simp add: GetDecrypted_def b64_ok_def)

lemma toy_relocated:
  "GetDecrypted toy (toy_vault0\<lparr>Entries := Some [(replicate 16 (CHR ''j''), toy_entry1)]\<rparr>)
     toy_key (replicate 16 (CHR ''j''))
   = Inl (Wrap ''decryption failed (authentication tag verification failed)'' GcmAuthFailed)"
  by code_simp

end
